theory Spec2Isabelle
  imports Complex_Main
begin

section \<open>Tensors, errors and the external collaborators\<close>

text \<open>
  The program is the script \<^verbatim>\<open>cleanrl/RAN_ddpg_continuous_action.py\<close>: DDPG with a
  momentum network \<^verbatim>\<open>m_qf1\<close> whose tensors are fed to the critic's optimizer as its
  gradient.  A tensor is its shape and its entries in row-major order.  Entries are
  real numbers: rounding of the 32-bit floats of the program is not part of the model.
  A Python exception is a value of \<open>error\<close>; every fallible operation returns
  \<open>error + 'a\<close>.
\<close>

datatype error =
    ShapeError
  | KeyError string
  | NameError string
  | ZeroDivisionError
  | ValueError
  | NotANumber

datatype tensor = Tensor (shape: "nat list") (vals: "real list")

type_synonym params = "(string \<times> tensor) list"

definition ebind :: "error + 'a \<Rightarrow> ('a \<Rightarrow> error + 'b) \<Rightarrow> error + 'b" where
  "ebind m f = (case m of Inl e \<Rightarrow> Inl e | Inr x \<Rightarrow> f x)"

fun emap :: "('a \<Rightarrow> error + 'b) \<Rightarrow> 'a list \<Rightarrow> error + 'b list" where
  "emap f [] = Inr []"
| "emap f (x # xs) = ebind (f x) (\<lambda>y. ebind (emap f xs) (\<lambda>ys. Inr (y # ys)))"

text \<open>
  \<^verbatim>\<open>c * t\<close> for a Python scalar \<open>c\<close>, and \<^verbatim>\<open>a + b\<close> for two tensors.  Torch
  broadcasts operands of unequal but compatible shapes; in this program both operands
  of every sum have the shape of one critic (or actor) parameter, and the model answers
  \<open>ShapeError\<close> for unequal shapes.  The theorems below show that this answer never
  arises in a run, so that the modelled branch is the one the program takes.
\<close>

definition smul :: "real \<Rightarrow> tensor \<Rightarrow> tensor" where
  "smul c t = Tensor (shape t) (map ((*) c) (vals t))"

definition tadd :: "tensor \<Rightarrow> tensor \<Rightarrow> error + tensor" where
  "tadd a b =
     (if shape a = shape b then Inr (Tensor (shape a) (map2 (+) (vals a) (vals b)))
      else Inl ShapeError)"

text \<open>\<^verbatim>\<open>w.fill_(c)\<close>: every entry becomes \<open>c\<close>, in place.\<close>

definition fill :: "tensor \<Rightarrow> real \<Rightarrow> tensor" where
  "fill w c = Tensor (shape w) (map (\<lambda>_. c) (vals w))"

definition zeros_like :: "tensor \<Rightarrow> tensor" where
  "zeros_like t = Tensor (shape t) (replicate (length (vals t)) 0)"

text \<open>Row \<open>i\<close> of a flat row-major array whose rows have \<open>k\<close> entries.\<close>

definition row :: "nat \<Rightarrow> real list \<Rightarrow> nat \<Rightarrow> real list" where
  "row k xs i = take k (drop (i * k) xs)"

definition dot :: "real list \<Rightarrow> real list \<Rightarrow> real" where
  "dot xs ys = sum_list (map2 (*) xs ys)"

subsection \<open>Command line arguments and the environment\<close>

record args =
  total_timesteps :: nat
  learning_rate :: real
  buffer_size :: nat
  gamma :: real
  tau :: real
  batch_size :: nat
  exploration_noise :: real
  learning_starts :: int
  policy_frequency :: int

text \<open>
  What the script reads from \<^verbatim>\<open>envs\<close>: the sizes of an observation and of an action
  and the bounds of the action space.
\<close>

record spaces =
  obs_dim :: nat
  act_dim :: nat
  action_low :: "real list"
  action_high :: "real list"

text \<open>
  The result of \<^verbatim>\<open>envs.step(actions)\<close> for the single environment of the vector:
  \<^verbatim>\<open>next_obs, rewards, dones, infos\<close>, of \<^verbatim>\<open>infos[0]\<close> the key
  \<^verbatim>\<open>"terminal_observation"\<close> (\<open>None\<close> when the key is absent).
\<close>

record env_out =
  next_obs :: "real list"
  reward :: real
  is_done :: bool
  terminal_observation :: "real list option"

text \<open>One stored transition; a sampled batch \<^verbatim>\<open>data\<close> is a list of them.\<close>

record transition =
  observations :: "real list"
  next_observations :: "real list"
  actions :: "real list"
  rewards :: real
  dones :: real

text \<open>
  The collaborators outside the script: the environment (a state machine on \<open>'e\<close>), the
  random draws (indexed by \<^verbatim>\<open>global_step\<close>), the sampling order of the replay buffer,
  the initial values of a freshly constructed network (indexed by the network's number
  in construction order, the parameter's name and the entry's position), and
  automatic differentiation: \<open>autograd f P\<close> is the list of gradients of the scalar
  \<open>f\<close> at the parameters \<open>P\<close>, one tensor per parameter, in the order of \<open>P\<close>.
\<close>

record 'e ext =
  env_reset :: "'e \<times> real list"
  env_step :: "'e \<Rightarrow> real list \<Rightarrow> 'e \<times> env_out"
  action_space_sample :: "nat \<Rightarrow> real list"
  normal :: "nat \<Rightarrow> real list \<Rightarrow> real list"
  sample_indices :: "nat \<Rightarrow> nat \<Rightarrow> nat \<Rightarrow> nat list"
  init_value :: "nat \<Rightarrow> string \<Rightarrow> nat \<Rightarrow> real"
  autograd :: "(params \<Rightarrow> error + real) \<Rightarrow> params \<Rightarrow> tensor list"

section \<open>The networks\<close>

text \<open>
  \<^verbatim>\<open>nn.Linear(in_features, out_features)\<close> owns \<^verbatim>\<open>weight\<close> of shape
  \<^verbatim>\<open>[out_features, in_features]\<close> and \<^verbatim>\<open>bias\<close> of shape \<^verbatim>\<open>[out_features]\<close>.
\<close>

definition Linear :: "string \<Rightarrow> nat \<Rightarrow> nat \<Rightarrow> (string \<Rightarrow> nat \<Rightarrow> real) \<Rightarrow> params" where
  "Linear name in_features out_features init =
     [(name @ ''.weight'',
        Tensor [out_features, in_features]
          (map (init (name @ ''.weight'')) [0..<out_features * in_features])),
      (name @ ''.bias'',
        Tensor [out_features] (map (init (name @ ''.bias'')) [0..<out_features]))]"

definition QNetwork :: "spaces \<Rightarrow> (string \<Rightarrow> nat \<Rightarrow> real) \<Rightarrow> params" where
  "QNetwork env init =
     Linear ''fc1'' (obs_dim env + act_dim env) 256 init
     @ Linear ''fc2'' 256 256 init
     @ Linear ''fc3'' 256 1 init"

definition Actor :: "spaces \<Rightarrow> (string \<Rightarrow> nat \<Rightarrow> real) \<Rightarrow> params" where
  "Actor env init =
     Linear ''fc1'' (obs_dim env) 256 init
     @ Linear ''fc2'' 256 256 init
     @ Linear ''fc_mu'' 256 (act_dim env) init"

definition action_scale :: "spaces \<Rightarrow> real list" where
  "action_scale env = map2 (\<lambda>h l. (h - l) / 2) (action_high env) (action_low env)"

definition action_bias :: "spaces \<Rightarrow> real list" where
  "action_bias env = map2 (\<lambda>h l. (h + l) / 2) (action_high env) (action_low env)"

text \<open>
  \<^verbatim>\<open>self.fc(x)\<close> for one row \<open>x\<close> of the input: \<open>W x + b\<close>.  A missing parameter is a
  \<open>KeyError\<close>, operands that do not fit are a \<open>ShapeError\<close>.
\<close>

definition fc :: "params \<Rightarrow> string \<Rightarrow> real list \<Rightarrow> error + real list" where
  "fc P name x =
     (case (map_of P (name @ ''.weight''), map_of P (name @ ''.bias'')) of
        (Some W, Some b) \<Rightarrow>
          (case shape W of
             [out_features, in_features] \<Rightarrow>
               if length x = in_features \<and> shape b = [out_features]
                  \<and> length (vals b) = out_features
               then Inr (map2 (+) (map (\<lambda>i. dot (row in_features (vals W) i) x)
                                     [0..<out_features]) (vals b))
               else Inl ShapeError
           | _ \<Rightarrow> Inl ShapeError)
      | (None, _) \<Rightarrow> Inl (KeyError (name @ ''.weight''))
      | (_, None) \<Rightarrow> Inl (KeyError (name @ ''.bias'')))"

definition relu :: "real list \<Rightarrow> real list" where
  "relu x = map (\<lambda>v. max 0 v) x"

text \<open>\<^verbatim>\<open>QNetwork.forward(x, a)\<close> on one row of the batch.\<close>

definition QNetwork_forward :: "params \<Rightarrow> real list \<Rightarrow> real list \<Rightarrow> error + real list" where
  "QNetwork_forward P x a =
     ebind (fc P ''fc1'' (x @ a)) (\<lambda>x1.
     ebind (fc P ''fc2'' (relu x1)) (\<lambda>x2.
     fc P ''fc3'' (relu x2)))"

text \<open>\<^verbatim>\<open>Actor.forward(x)\<close> on one row of the batch.\<close>

definition Actor_forward :: "spaces \<Rightarrow> params \<Rightarrow> real list \<Rightarrow> error + real list" where
  "Actor_forward env P x =
     ebind (fc P ''fc1'' x) (\<lambda>x1.
     ebind (fc P ''fc2'' (relu x1)) (\<lambda>x2.
     ebind (fc P ''fc_mu'' (relu x2)) (\<lambda>x3.
     if length x3 = length (action_scale env) \<and> length x3 = length (action_bias env)
     then Inr (map2 (+) (map2 (*) (map tanh x3) (action_scale env)) (action_bias env))
     else Inl ShapeError)))"

section \<open>Per-sample gradients\<close>

text \<open>
  \<^verbatim>\<open>compute_delta(params, observations, actions, rewards, next_observations, dones)\<close>
  for one sample (a batch of one row after \<^verbatim>\<open>unsqueeze(0)\<close>).  \<open>ta\<close> are the parameters
  of \<^verbatim>\<open>target_actor\<close>; both calls of \<^verbatim>\<open>functional_call(qf1, (params,), ...)\<close> evaluate
  the critic at the argument \<open>P\<close>.
\<close>

definition compute_delta ::
  "spaces \<Rightarrow> args \<Rightarrow> params \<Rightarrow> params \<Rightarrow> real list \<Rightarrow> real list \<Rightarrow> real \<Rightarrow> real list \<Rightarrow> real
     \<Rightarrow> error + real" where
  "compute_delta env ar ta P obs act rew nobs dn =
     ebind (Actor_forward env ta nobs) (\<lambda>next_state_actions.
     ebind (QNetwork_forward P nobs next_state_actions) (\<lambda>qf1_next_target.
     let next_q_value = map (\<lambda>q. rew + (1 - dn) * gamma ar * q) qf1_next_target in
     ebind (QNetwork_forward P obs act) (\<lambda>qf1_a_values.
     let delta_vec = map2 (-) next_q_value qf1_a_values in
     Inr (sum_list delta_vec))))"

text \<open>
  \<^verbatim>\<open>compute_nabla_delta = grad(compute_delta)\<close> and
  \<^verbatim>\<open>compute_sample_nabla_delta = vmap(compute_nabla_delta, in_dims=(None, 0, 0, 0, 0, 0))\<close>:
  the gradient with respect to the first argument, for every sample of the batch; the
  result maps a parameter's name to the tensor of shape \<^verbatim>\<open>[N, *shape]\<close> that stacks
  the \<open>N\<close> per-sample gradients.
\<close>

definition compute_nabla_delta ::
  "'e ext \<Rightarrow> spaces \<Rightarrow> args \<Rightarrow> params \<Rightarrow> params \<Rightarrow> transition \<Rightarrow> error + tensor list" where
  "compute_nabla_delta ex env ar ta P d =
     (let f = (\<lambda>P'. compute_delta env ar ta P' (observations d) (actions d) (rewards d)
                       (next_observations d) (dones d))
      in ebind (f P) (\<lambda>_. Inr (autograd ex f P)))"

definition stack :: "tensor list \<Rightarrow> tensor \<Rightarrow> tensor" where
  "stack ts like =
     Tensor (length ts # (case ts of [] \<Rightarrow> shape like | t # _ \<Rightarrow> shape t))
       (concat (map vals ts))"

definition compute_sample_nabla_delta ::
  "'e ext \<Rightarrow> spaces \<Rightarrow> args \<Rightarrow> params \<Rightarrow> params \<Rightarrow> transition list
     \<Rightarrow> error + (string \<Rightarrow> tensor option)" where
  "compute_sample_nabla_delta ex env ar ta P data =
     ebind (emap (compute_nabla_delta ex env ar ta P) data) (\<lambda>per_sample.
     Inr (map_of (map (\<lambda>k. (fst (P ! k), stack (map (\<lambda>g. g ! k) per_sample) (snd (P ! k))))
                      [0..<length P])))"

subsection \<open>The residual of the specification\<close>


text \<open>The parameters \<open>P\<close> with every entry of \<^verbatim>\<open>fc3.bias\<close> replaced by \<open>b\<close>.\<close>

definition with_fc3_bias :: "real \<Rightarrow> params \<Rightarrow> params" where
  "with_fc3_bias b P =
     map (\<lambda>p. (fst p, if fst p = ''fc3.bias'' then Tensor [1] [b] else snd p)) P"

section \<open>The critic's learning step\<close>

text \<open>
  \<^verbatim>\<open>qf1_loss\<close> of lines 262--268, as a function of the critic's parameters: the
  bootstrap \<^verbatim>\<open>qf1_next_target\<close> is \<^verbatim>\<open>qf1(data.next_observations, next_state_actions)\<close>
  and stands outside the \<^verbatim>\<open>torch.no_grad()\<close> block.  An empty batch has the mean
  \<^verbatim>\<open>nan\<close>, which the real numbers do not have: \<open>NotANumber\<close>.
\<close>

definition qf1_loss ::
  "spaces \<Rightarrow> args \<Rightarrow> params \<Rightarrow> transition list \<Rightarrow> params \<Rightarrow> error + real" where
  "qf1_loss env ar ta data P =
     ebind (emap (\<lambda>d. Actor_forward env ta (next_observations d)) data) (\<lambda>next_state_actions.
     ebind (emap (\<lambda>(d, a). QNetwork_forward P (next_observations d) a)
              (zip data next_state_actions)) (\<lambda>qf1_next_target.
     if length (concat qf1_next_target) \<noteq> length data then Inl ShapeError
     else
       let next_q_value =
             map2 (\<lambda>d q. rewards d + (1 - dones d) * gamma ar * q) data (concat qf1_next_target)
       in
       ebind (emap (\<lambda>d. QNetwork_forward P (observations d) (actions d)) data) (\<lambda>qf1_a_values.
       if length (concat qf1_a_values) \<noteq> length next_q_value then Inl ShapeError
       else if data = [] then Inl NotANumber
       else Inr (sum_list (map2 (\<lambda>a y. (a - y) ^ 2) (concat qf1_a_values) next_q_value)
                  / real (length data)))))"

definition lambda_val :: real where
  "lambda_val = 0.999"

definition beta :: real where
  "beta = 0.001"

text \<open>
  Lines 284--285: \<^verbatim>\<open>for m, p in zip(m_qf1.parameters(), qf1.parameters()):
  m.data = lambda_val*m.data + beta*p.grad\<close>.  The second argument lists \<^verbatim>\<open>p.grad\<close>
  in the order of \<^verbatim>\<open>qf1.parameters()\<close>.
\<close>

fun momentum_update :: "params \<Rightarrow> tensor list \<Rightarrow> error + params" where
  "momentum_update ((n, m) # ms) (g # gs) =
     ebind (tadd (smul lambda_val m) (smul beta g)) (\<lambda>m'.
     ebind (momentum_update ms gs) (\<lambda>ms'. Inr ((n, m') # ms')))"
| "momentum_update ms gs = Inr ms"

text \<open>
  \<^verbatim>\<open>torch.mul(m.unsqueeze(0), nabla_deltas)\<close>: the tensor \<open>m\<close> of shape \<open>s\<close> against \<open>N\<close>
  stacked tensors of shape \<open>s\<close>.
\<close>

definition mul_unsqueeze :: "tensor \<Rightarrow> tensor \<Rightarrow> error + tensor" where
  "mul_unsqueeze m nabla_deltas =
     (case shape nabla_deltas of
        [] \<Rightarrow> Inl ShapeError
      | N # s \<Rightarrow>
          if s = shape m
          then Inr (Tensor (N # s)
                 (concat (map (\<lambda>i. map2 (*) (vals m) (row (prod_list s) (vals nabla_deltas) i))
                            [0..<N])))
          else Inl ShapeError)"

text \<open>\<^verbatim>\<open>t.reshape(args.batch_size, -1).sum(1)\<close>.\<close>

definition reshape_sum :: "nat \<Rightarrow> tensor \<Rightarrow> error + real list" where
  "reshape_sum bs t =
     (let n = length (vals t) in
      if bs = 0 \<or> n mod bs \<noteq> 0 then Inl ShapeError
      else Inr (map (\<lambda>i. sum_list (row (n div bs) (vals t) i)) [0..<bs]))"

text \<open>
  Lines 295--304, the loop that accumulates \<^verbatim>\<open>m_nabla_delta\<close> (one entry per sample)
  over the parameters, from \<^verbatim>\<open>torch.zeros(args.batch_size)\<close>.
\<close>

fun m_nabla_delta_loop ::
  "nat \<Rightarrow> (string \<Rightarrow> tensor option) \<Rightarrow> params \<Rightarrow> params \<Rightarrow> real list \<Rightarrow> error + real list" where
  "m_nabla_delta_loop bs gs ((mn, m) # ms) ((name, p) # ps) m_nabla_delta =
     (case gs name of
        None \<Rightarrow> Inl (KeyError name)
      | Some nabla_deltas \<Rightarrow>
          ebind (mul_unsqueeze m nabla_deltas) (\<lambda>prod.
          ebind (reshape_sum bs prod) (\<lambda>s.
          m_nabla_delta_loop bs gs ms ps (map2 (+) m_nabla_delta s))))"
| "m_nabla_delta_loop bs gs ms ps m_nabla_delta = Inr m_nabla_delta"

text \<open>
  The variable \<^verbatim>\<open>m_nabla_delta_\<close> of lines 313--316 holds \<^verbatim>\<open>m_nabla_delta\<close>
  reshaped to \<^verbatim>\<open>[N, 1, 1]\<close> or \<^verbatim>\<open>[N, 1]\<close>: the number of trailing ones and the
  entries.  It is a variable of the module: before its first assignment it is unbound
  (\<open>None\<close>), and an iteration that takes neither branch reads the value of an earlier
  one.
\<close>

type_synonym bc = "nat \<times> real list"

text \<open>
  \<^verbatim>\<open>torch.mul(m_nabla_delta_, nabla_deltas)\<close> where \<^verbatim>\<open>m_nabla_delta_\<close> has one trailing
  one per dimension of the parameter: sample \<open>i\<close> is scaled by entry \<open>i\<close>.  The other
  combinations of shapes (a stale \<^verbatim>\<open>m_nabla_delta_\<close> of another rank) are not modelled
  and answer \<open>ShapeError\<close>.
\<close>

definition mul_bc :: "bc \<Rightarrow> tensor \<Rightarrow> error + tensor" where
  "mul_bc c nabla_deltas =
     (case shape nabla_deltas of
        [] \<Rightarrow> Inl ShapeError
      | N # s \<Rightarrow>
          if length s = fst c \<and> length (snd c) = N
          then Inr (Tensor (N # s)
                 (concat (map (\<lambda>i. map ((*) (snd c ! i)) (row (prod_list s) (vals nabla_deltas) i))
                            [0..<N])))
          else Inl ShapeError)"

text \<open>\<^verbatim>\<open>t.mean(0)\<close>: the average over the first dimension; \<^verbatim>\<open>nan\<close> when it is empty.\<close>

definition mean0 :: "tensor \<Rightarrow> error + tensor" where
  "mean0 t =
     (case shape t of
        [] \<Rightarrow> Inl ShapeError
      | N # s \<Rightarrow>
          if N = 0 then Inl NotANumber
          else Inr (Tensor s
                 (map (\<lambda>v. v / real N)
                    (foldr (map2 (+)) (map (row (prod_list s) (vals t)) [0..<N])
                       (replicate (prod_list s) 0)))))"

text \<open>
  Lines 306--321: the loop that sets \<^verbatim>\<open>m.grad\<close>.  It returns the gradients in the order
  of the parameters and the last value of \<^verbatim>\<open>m_nabla_delta_\<close>.  Assigning a gradient of
  another shape than the parameter's raises.
\<close>

fun m_grad_loop ::
  "(string \<Rightarrow> tensor option) \<Rightarrow> params \<Rightarrow> params \<Rightarrow> real list \<Rightarrow> bc option
     \<Rightarrow> error + (tensor list \<times> bc option)" where
  "m_grad_loop gs ((mn, m) # ms) ((name, p) # ps) m_nabla_delta m_nabla_delta_bc =
     (case gs name of
        None \<Rightarrow> Inl (KeyError name)
      | Some nabla_deltas \<Rightarrow>
          let m_nabla_delta_bc' =
                (if length (shape p) = 2 then Some (2, m_nabla_delta)
                 else if length (shape p) = 1 then Some (1, m_nabla_delta)
                 else m_nabla_delta_bc)
          in
          (case m_nabla_delta_bc' of
             None \<Rightarrow> Inl (NameError ''m_nabla_delta_'')
           | Some c \<Rightarrow>
               ebind (mul_bc c nabla_deltas) (\<lambda>prod.
               ebind (mean0 prod) (\<lambda>m_nabla_delta_nabla_delta.
               if shape m_nabla_delta_nabla_delta \<noteq> shape m then Inl ShapeError
               else
                 ebind (m_grad_loop gs ms ps m_nabla_delta m_nabla_delta_bc') (\<lambda>(grads, c').
                 Inr (m_nabla_delta_nabla_delta # grads, c'))))))"
| "m_grad_loop gs ms ps m_nabla_delta m_nabla_delta_bc = Inr ([], m_nabla_delta_bc)"

subsection \<open>The optimizers\<close>

text \<open>
  \<^verbatim>\<open>torch.optim.RMSprop\<close> with its defaults (\<^verbatim>\<open>alpha=0.99, eps=1e-08\<close>, no momentum, not
  centered, no weight decay), for one parameter: \<open>p\<close> with gradient \<open>g\<close> and running
  average \<open>v\<close> of the squared gradient.  The optimizer keeps \<open>v\<close> per parameter, from
  zero.
\<close>

definition rmsprop_single :: "real \<Rightarrow> tensor \<Rightarrow> tensor \<Rightarrow> tensor \<Rightarrow> tensor \<times> tensor" where
  "rmsprop_single lr p g v =
     (let square_avg = map2 (\<lambda>v g. 0.99 * v + (1 - 0.99) * (g * g)) (vals v) (vals g);
          avg = map (\<lambda>v. sqrt v + 1 / 10 ^ 8) square_avg
      in (Tensor (shape p) (map2 (\<lambda>p (g, a). p - lr * (g / a)) (vals p) (zip (vals g) avg)),
          Tensor (shape v) square_avg))"

text \<open>
  \<^verbatim>\<open>M_optimizer.step()\<close>: parameters whose \<^verbatim>\<open>.grad\<close> is \<^verbatim>\<open>None\<close> (beyond the list of
  gradients) are left as they are.
\<close>

fun RMSprop_step ::
  "real \<Rightarrow> params \<Rightarrow> tensor list \<Rightarrow> tensor list \<Rightarrow> params \<times> tensor list" where
  "RMSprop_step lr ((n, p) # ps) (g # gs) (v # vs) =
     (let (p', v') = rmsprop_single lr p g v;
          (ps', vs') = RMSprop_step lr ps gs vs
      in ((n, p') # ps', v' # vs'))"
| "RMSprop_step lr ps gs vs = (ps, vs)"

text \<open>
  \<^verbatim>\<open>torch.optim.Adam\<close> with its defaults (\<^verbatim>\<open>betas=(0.9, 0.999), eps=1e-08\<close>, no weight
  decay), for one parameter at step \<open>t\<close> (counted from 1).
\<close>

record adam_state =
  step_count :: nat
  exp_avg :: "tensor list"
  exp_avg_sq :: "tensor list"

definition adam_single ::
  "real \<Rightarrow> nat \<Rightarrow> tensor \<Rightarrow> tensor \<Rightarrow> tensor \<Rightarrow> tensor \<Rightarrow> tensor \<times> tensor \<times> tensor" where
  "adam_single lr t p g m v =
     (let m' = map2 (\<lambda>m g. 0.9 * m + (1 - 0.9) * g) (vals m) (vals g);
          v' = map2 (\<lambda>v g. 0.999 * v + (1 - 0.999) * (g * g)) (vals v) (vals g);
          bias_correction1 = 1 - 0.9 ^ t;
          bias_correction2 = 1 - 0.999 ^ t;
          step_size = lr / bias_correction1;
          denom = map (\<lambda>v. sqrt v / sqrt bias_correction2 + 1 / 10 ^ 8) v'
      in (Tensor (shape p) (map2 (\<lambda>p (m, d). p - step_size * (m / d)) (vals p) (zip m' denom)),
          Tensor (shape m) m', Tensor (shape v) v'))"

fun adam_params ::
  "real \<Rightarrow> nat \<Rightarrow> params \<Rightarrow> tensor list \<Rightarrow> tensor list \<Rightarrow> tensor list
     \<Rightarrow> params \<times> tensor list \<times> tensor list" where
  "adam_params lr t ((n, p) # ps) (g # gs) (m # ms) (v # vs) =
     (let (p', m', v') = adam_single lr t p g m v;
          (ps', ms', vs') = adam_params lr t ps gs ms vs
      in ((n, p') # ps', m' # ms', v' # vs'))"
| "adam_params lr t ps gs ms vs = (ps, ms, vs)"

definition Adam_step :: "real \<Rightarrow> adam_state \<Rightarrow> params \<Rightarrow> tensor list \<Rightarrow> params \<times> adam_state" where
  "Adam_step lr st P grads =
     (let t = Suc (step_count st);
          (P', ms, vs) = adam_params lr t P grads (exp_avg st) (exp_avg_sq st)
      in (P', \<lparr>step_count = t, exp_avg = ms, exp_avg_sq = vs\<rparr>))"

definition Adam :: "params \<Rightarrow> adam_state" where
  "Adam P = \<lparr>step_count = 0, exp_avg = map (zeros_like \<circ> snd) P,
              exp_avg_sq = map (zeros_like \<circ> snd) P\<rparr>"

subsection \<open>The block between the two optimizers\<close>

text \<open>
  Lines 326--327: \<^verbatim>\<open>for m, p in zip(m_qf1.parameters(), qf1.parameters()): p.grad = m.data\<close>.
  The assignment raises when the shapes differ.  It binds \<^verbatim>\<open>p.grad\<close> to the tensor
  \<^verbatim>\<open>m.data\<close> itself, not to a copy.
\<close>

fun set_p_grad :: "params \<Rightarrow> params \<Rightarrow> error + tensor list" where
  "set_p_grad ((mn, m) # ms) ((name, p) # ps) =
     (if shape m \<noteq> shape p then Inl ShapeError
      else ebind (set_p_grad ms ps) (\<lambda>grads. Inr (m # grads)))"
| "set_p_grad ms ps = Inr []"

text \<open>
  What lines 278--327 leave behind: the momentum network and the state of its
  optimizer, the variable \<^verbatim>\<open>m_nabla_delta_\<close>, the gradients \<^verbatim>\<open>m.grad\<close> that
  \<^verbatim>\<open>M_optimizer.step()\<close> consumed and the gradients \<^verbatim>\<open>p.grad\<close> that
  \<^verbatim>\<open>q_optimizer.step()\<close> is about to consume.
\<close>

record ran =
  ran_m_qf1 :: params
  ran_square_avg :: "tensor list"
  ran_m_nabla_delta_bc :: "bc option"
  ran_m_grad :: "tensor list"
  ran_p_grad :: "tensor list"

text \<open>
  Lines 278--327.  \<open>p_grad\<close> lists \<^verbatim>\<open>p.grad\<close> as \<^verbatim>\<open>qf1_loss.backward()\<close> left it, and
  \<open>gs\<close> is the outcome of the call of \<^verbatim>\<open>compute_sample_nabla_delta\<close> at line 292.
\<close>

definition RAN_additions ::
  "args \<Rightarrow> params \<Rightarrow> params \<Rightarrow> tensor list \<Rightarrow> error + (string \<Rightarrow> tensor option)
     \<Rightarrow> tensor list \<Rightarrow> bc option \<Rightarrow> error + ran" where
  "RAN_additions ar M P p_grad gs square_avg m_nabla_delta_bc =
     ebind (momentum_update M p_grad) (\<lambda>M1.
     ebind gs (\<lambda>gs.
     ebind (m_nabla_delta_loop (batch_size ar) gs M1 P (replicate (batch_size ar) 0))
       (\<lambda>m_nabla_delta.
     ebind (m_grad_loop gs M1 P m_nabla_delta m_nabla_delta_bc) (\<lambda>(m_grad, c).
     let (M2, square_avg') = RMSprop_step (0.5 * learning_rate ar) M1 m_grad square_avg in
     ebind (set_p_grad M2 P) (\<lambda>p_grad'.
     Inr \<lparr>ran_m_qf1 = M2, ran_square_avg = square_avg', ran_m_nabla_delta_bc = c,
          ran_m_grad = m_grad, ran_p_grad = p_grad'\<rparr>)))))"

section \<open>The training loop\<close>

text \<open>
  Modelled from the spec: the replay store (\<^verbatim>\<open>stable_baselines3\<close>'s \<^verbatim>\<open>ReplayBuffer\<close>
  is not among the sources).  The spec describes a fixed-capacity store that evicts
  in FIFO order, \<^verbatim>\<open>add\<close> storing one transition and \<^verbatim>\<open>sample(batch_size)\<close> returning
  independently drawn stored transitions.
\<close>

definition rb_add :: "nat \<Rightarrow> transition list \<Rightarrow> transition \<Rightarrow> transition list" where
  "rb_add capacity buf t =
     (if capacity = 0 then []
      else if length buf < capacity then buf @ [t] else tl buf @ [t])"

definition rb_sample :: "transition list \<Rightarrow> nat list \<Rightarrow> error + transition list" where
  "rb_sample buf idx =
     (if buf = [] then Inl ValueError else Inr (map (\<lambda>i. buf ! (i mod length buf)) idx))"

record 'e state =
  actor :: params
  qf1 :: params
  qf1_target :: params
  target_actor :: params
  m_qf1 :: params
  q_optimizer :: adam_state
  actor_optimizer :: adam_state
  M_optimizer :: "tensor list"
  rb :: "transition list"
  obs :: "real list"
  envs :: 'e
  m_nabla_delta_bc :: "bc option"
  actor_loss :: "real option"

text \<open>Lines 166--197 and 226: the networks, the optimizers, the buffer, the first observation.\<close>

definition startup :: "'e ext \<Rightarrow> spaces \<Rightarrow> 'e state" where
  "startup ex env =
     (let actor0 = Actor env (init_value ex 0);
          qf1_0 = QNetwork env (init_value ex 1);
          m_qf1_0 = map (\<lambda>(n, w). (n, fill w 0)) (QNetwork env (init_value ex 4))
      in \<lparr>actor = actor0, qf1 = qf1_0,
           qf1_target = qf1_0, target_actor = actor0,
           m_qf1 = m_qf1_0,
           q_optimizer = Adam qf1_0, actor_optimizer = Adam actor0,
           M_optimizer = map (zeros_like \<circ> snd) m_qf1_0,
           rb = [], obs = snd (env_reset ex), envs = fst (env_reset ex),
           m_nabla_delta_bc = None, actor_loss = None\<rparr>)"

text \<open>
  Lines 261--334: one learning update of the critic.  It returns the new state and the
  batch \<^verbatim>\<open>data\<close>, which the policy update of the same step reads.
\<close>

definition critic_update ::
  "'e ext \<Rightarrow> spaces \<Rightarrow> args \<Rightarrow> nat \<Rightarrow> 'e state \<Rightarrow> error + ('e state \<times> transition list)" where
  "critic_update ex env ar global_step st =
     ebind (rb_sample (rb st)
              (sample_indices ex global_step (length (rb st)) (batch_size ar))) (\<lambda>data.
      let loss = qf1_loss env ar (target_actor st) data in
      ebind (loss (qf1 st)) (\<lambda>_.
      let p_grad = autograd ex loss (qf1 st);
          gs = compute_sample_nabla_delta ex env ar (target_actor st) (qf1 st) data
      in
      ebind (RAN_additions ar (m_qf1 st) (qf1 st) p_grad gs (M_optimizer st)
               (m_nabla_delta_bc st)) (\<lambda>r.
      let (qf1', q_optimizer') =
            Adam_step (learning_rate ar) (q_optimizer st) (qf1 st) (ran_p_grad r)
      in Inr (st\<lparr>qf1 := qf1', q_optimizer := q_optimizer', m_qf1 := ran_m_qf1 r,
                 M_optimizer := ran_square_avg r,
                 m_nabla_delta_bc := ran_m_nabla_delta_bc r\<rparr>, data))))"

text \<open>
  Lines 343--346: \<^verbatim>\<open>target_param.data.copy_(args.tau * param.data + (1 - args.tau) *
  target_param.data)\<close> over the zipped parameters.
\<close>

fun soft_update :: "real \<Rightarrow> params \<Rightarrow> params \<Rightarrow> error + params" where
  "soft_update t ((pn, param) # ps) ((tn, target_param) # ts) =
     ebind (tadd (smul t param) (smul (1 - t) target_param)) (\<lambda>v.
     ebind (soft_update t ps ts) (\<lambda>ts'. Inr ((tn, v) # ts')))"
| "soft_update t ps ts = Inr ts"

text \<open>\<^verbatim>\<open>actor_loss = -qf1(data.observations, actor(data.observations)).mean()\<close>.\<close>

definition actor_loss_of ::
  "spaces \<Rightarrow> transition list \<Rightarrow> params \<Rightarrow> params \<Rightarrow> error + real" where
  "actor_loss_of env data Pa Pq =
     ebind (emap (\<lambda>d. ebind (Actor_forward env Pa (observations d))
                        (QNetwork_forward Pq (observations d))) data) (\<lambda>q.
     if concat q = [] then Inl NotANumber
     else Inr (- (sum_list (concat q) / real (length (concat q)))))"

text \<open>
  \<^verbatim>\<open>actor_loss.backward()\<close> also reaches the parameters of \<^verbatim>\<open>qf1\<close>.  Their
  \<^verbatim>\<open>.grad\<close> is set (line 327), so autograd accumulates into it in place; and it is the
  tensor \<^verbatim>\<open>m.data\<close>, so the sum lands in the momentum network.
\<close>

fun accumulate :: "params \<Rightarrow> tensor list \<Rightarrow> error + params" where
  "accumulate ((n, m) # ms) (g # gs) =
     ebind (tadd m g) (\<lambda>m'. ebind (accumulate ms gs) (\<lambda>ms'. Inr ((n, m') # ms')))"
| "accumulate ms gs = Inr ms"

text \<open>Lines 337--346: the delayed update of the actor and of the two target networks.\<close>

definition policy_update ::
  "'e ext \<Rightarrow> spaces \<Rightarrow> args \<Rightarrow> transition list \<Rightarrow> 'e state \<Rightarrow> error + 'e state" where
  "policy_update ex env ar data st =
     ebind (actor_loss_of env data (actor st) (qf1 st)) (\<lambda>l.
     let actor_grad = autograd ex (\<lambda>Pa. actor_loss_of env data Pa (qf1 st)) (actor st);
         qf1_grad = autograd ex (actor_loss_of env data (actor st)) (qf1 st)
     in
     ebind (accumulate (m_qf1 st) qf1_grad) (\<lambda>m_qf1'.
     let (actor', actor_optimizer') =
           Adam_step (learning_rate ar) (actor_optimizer st) (actor st) actor_grad
     in
     ebind (soft_update (tau ar) actor' (target_actor st)) (\<lambda>target_actor'.
     ebind (soft_update (tau ar) (qf1 st) (qf1_target st)) (\<lambda>qf1_target'.
     Inr (st\<lparr>actor := actor', actor_optimizer := actor_optimizer', m_qf1 := m_qf1',
                target_actor := target_actor', qf1_target := qf1_target',
                actor_loss := Some l\<rparr>)))))"

text \<open>Lines 229--235: a random action before \<^verbatim>\<open>learning_starts\<close>, the noisy policy after.\<close>

definition select_action ::
  "'e ext \<Rightarrow> spaces \<Rightarrow> args \<Rightarrow> nat \<Rightarrow> 'e state \<Rightarrow> error + real list" where
  "select_action ex env ar global_step st =
     (if int global_step < learning_starts ar then Inr (action_space_sample ex global_step)
      else
        ebind (Actor_forward env (actor st) (obs st)) (\<lambda>a.
        let std = map (\<lambda>s. s * exploration_noise ar) (action_scale env);
            noise = normal ex global_step std
        in
        if \<exists>s \<in> set std. s < 0 then Inl ValueError
        else if length noise \<noteq> length a \<or> length (action_low env) \<noteq> length a
           \<or> length (action_high env) \<noteq> length a
        then Inl ShapeError
        else Inr (map2 (\<lambda>x (lo, hi). min hi (max lo x)) (map2 (+) a noise)
                    (zip (action_low env) (action_high env)))))"

text \<open>Lines 260--355: the training of one pass of the loop, after the transition is stored.\<close>

definition training ::
  "'e ext \<Rightarrow> spaces \<Rightarrow> args \<Rightarrow> nat \<Rightarrow> 'e state \<Rightarrow> error + 'e state" where
  "training ex env ar global_step st =
     (if int global_step > learning_starts ar then
        ebind (critic_update ex env ar global_step st) (\<lambda>(st2, data).
        ebind (if policy_frequency ar = 0 then Inl ZeroDivisionError
               else if int global_step mod policy_frequency ar = 0
               then policy_update ex env ar data st2
               else Inr st2) (\<lambda>st3.
        if global_step mod 100 = 0 \<and> actor_loss st3 = None
        then Inl (NameError ''actor_loss'')
        else Inr st3))
      else Inr st)"

text \<open>Lines 228--355: one pass of \<^verbatim>\<open>for global_step in range(args.total_timesteps)\<close>.\<close>

definition loop_body ::
  "'e ext \<Rightarrow> spaces \<Rightarrow> args \<Rightarrow> nat \<Rightarrow> 'e state \<Rightarrow> error + 'e state" where
  "loop_body ex env ar global_step st =
     ebind (select_action ex env ar global_step st) (\<lambda>acts.
     let (envs', out) = env_step ex (envs st) acts in
     ebind (if is_done out
            then (case terminal_observation out of
                    None \<Rightarrow> Inl (KeyError ''terminal_observation'')
                  | Some t \<Rightarrow> Inr t)
            else Inr (next_obs out)) (\<lambda>real_next_obs.
     training ex env ar global_step
       (st\<lparr>rb := rb_add (buffer_size ar) (rb st)
                   \<lparr>observations = obs st, next_observations = real_next_obs,
                    actions = acts, rewards = reward out,
                    dones = (if is_done out then 1 else 0)\<rparr>,
           obs := next_obs out, envs := envs'\<rparr>)))"

text \<open>The first \<open>n\<close> passes of the loop, \<^verbatim>\<open>global_step\<close> \<open>= 0, ..., n - 1\<close>.\<close>

fun run :: "'e ext \<Rightarrow> spaces \<Rightarrow> args \<Rightarrow> nat \<Rightarrow> 'e state \<Rightarrow> error + 'e state" where
  "run ex env ar 0 st = Inr st"
| "run ex env ar (Suc n) st = ebind (run ex env ar n st) (loop_body ex env ar n)"

definition main :: "'e ext \<Rightarrow> spaces \<Rightarrow> args \<Rightarrow> error + 'e state" where
  "main ex env ar = run ex env ar (total_timesteps ar) (startup ex env)"

section \<open>Shapes\<close>

text \<open>
  The names and shapes of a network's parameters; a tensor is well formed when it has
  as many entries as its shape says; and \<open>per_sample_grads N P gs\<close> says that \<open>gs\<close> holds,
  for every parameter of \<open>P\<close>, a well-formed tensor that stacks \<open>N\<close> tensors of the
  parameter's shape.
\<close>

definition shapes :: "params \<Rightarrow> (string \<times> nat list) list" where
  "shapes P = map (\<lambda>p. (fst p, shape (snd p))) P"

definition well_formed :: "tensor \<Rightarrow> bool" where
  "well_formed t = (length (vals t) = prod_list (shape t))"

definition per_sample_grads :: "nat \<Rightarrow> params \<Rightarrow> (string \<Rightarrow> tensor option) \<Rightarrow> bool" where
  "per_sample_grads N P gs =
     list_all (\<lambda>p. case gs (fst p) of
                       None \<Rightarrow> False
                     | Some G \<Rightarrow> shape G = N # shape (snd p) \<and> well_formed G) P"

section \<open>The reshaped gradient of the specification\<close>

text \<open>
  Section 4.2 of the specification, steps 2 and 3, for comparison with lines 294--321:
  the projection \<open>c_i\<close> of sample \<open>i\<close> is the sum over all parameters of the inner product
  of \<open>M[name]\<close> with the gradient \<open>G[name]_i\<close> of that sample, and \<open>R[name]\<close> is the mean
  over the samples of \<open>c_i * G[name]_i\<close>.  \<open>sample G i\<close> lists the entries of sample \<open>i\<close>
  in a stack \<open>G\<close>.
\<close>

definition sample :: "tensor \<Rightarrow> nat \<Rightarrow> real list" where
  "sample G i = row (prod_list (tl (shape G))) (vals G) i"

definition spec_projection :: "params \<Rightarrow> (string \<Rightarrow> tensor option) \<Rightarrow> nat \<Rightarrow> real" where
  "spec_projection M gs i =
     (\<Sum>m\<leftarrow>M. case gs (fst m) of
                 None \<Rightarrow> 0
               | Some G \<Rightarrow> dot (vals (snd m)) (sample G i))"

definition spec_reshaped :: "nat \<Rightarrow> (nat \<Rightarrow> real) \<Rightarrow> tensor \<Rightarrow> tensor" where
  "spec_reshaped N c G =
     Tensor (tl (shape G))
       (map (\<lambda>j. (\<Sum>i\<leftarrow>[0..<N]. c i * sample G i ! j) / real N)
          [0..<prod_list (tl (shape G))])"

section \<open>A concrete run\<close>

text \<open>The defaults of \<^verbatim>\<open>parse_args\<close>.\<close>

definition default_args :: args where
  "default_args =
     \<lparr>total_timesteps = 1000000, learning_rate = 3 / 10 ^ 4, buffer_size = 1000000,
      gamma = 0.99, tau = 0.005, batch_size = 256, exploration_noise = 0.1,
      learning_starts = 25000, policy_frequency = 2\<rparr>"

text \<open>
  An environment with one-dimensional observations and actions in \<open>[-1, 1]\<close>, whose
  every step ends an episode in the observation \<open>0\<close> with reward \<open>-1/2\<close>; random draws
  that are all zero; networks that start with all parameters zero.  In such networks
  the critic's value is its last bias, the losses and the residual are polynomials of
  degree at most two in that bias, and their derivatives with respect to every other
  parameter vanish: the central difference in \<^verbatim>\<open>fc3.bias\<close> is the gradient.
\<close>

definition env1 :: spaces where
  "env1 = \<lparr>obs_dim = 1, act_dim = 1, action_low = [-1], action_high = [1]\<rparr>"

definition projr_or :: "real \<Rightarrow> error + real \<Rightarrow> real" where
  "projr_or d r = (case r of Inl _ \<Rightarrow> d | Inr x \<Rightarrow> x)"

definition shift_fc3_bias :: "real \<Rightarrow> params \<Rightarrow> params" where
  "shift_fc3_bias d P =
     map (\<lambda>p. (fst p, if fst p = ''fc3.bias''
                        then Tensor (shape (snd p)) (map (\<lambda>v. v + d) (vals (snd p)))
                        else snd p)) P"

definition autograd1 :: "(params \<Rightarrow> error + real) \<Rightarrow> params \<Rightarrow> tensor list" where
  "autograd1 f P =
     map (\<lambda>p. if fst p = ''fc3.bias''
               then Tensor (shape (snd p))
                      (map (\<lambda>_. (projr_or 0 (f (shift_fc3_bias 1 P))
                                  - projr_or 0 (f (shift_fc3_bias (- 1) P))) / 2)
                         (vals (snd p)))
               else zeros_like (snd p)) P"

definition ex1 :: "unit ext" where
  "ex1 =
     \<lparr>env_reset = ((), [0]),
      env_step = (\<lambda>e a. ((), \<lparr>next_obs = [0], reward = - 1 / 2, is_done = True,
                                terminal_observation = Some [0]\<rparr>)),
      action_space_sample = (\<lambda>global_step. [0]),
      normal = (\<lambda>global_step std. map (\<lambda>_. 0) std),
      sample_indices = (\<lambda>global_step n k. replicate k 0),
      init_value = (\<lambda>net name i. 0),
      autograd = autograd1\<rparr>"

text \<open>
  The arguments of the concrete run: the defaults, with batches of one transition,
  learning from the start and a policy update at every pass.
\<close>

definition args1 :: args where
  "args1 = default_args\<lparr>batch_size := 1, learning_starts := 0, policy_frequency := 1\<rparr>"

text \<open>
  The transition that every pass of the concrete run stores, and the state in which the
  first learning update of that run starts, in the pass with \<^verbatim>\<open>global_step = 1\<close>: the
  start, with the transitions of the first two passes in the buffer.
\<close>

definition transition1 :: transition where
  "transition1 =
     \<lparr>observations = [0], next_observations = [0], actions = [0], rewards = - 1 / 2,
      dones = 1\<rparr>"

definition state1 :: "unit state" where
  "state1 = (startup ex1 env1)\<lparr>rb := [transition1, transition1]\<rparr>"

text \<open>Stacks of \<open>N\<close> per-sample gradients whose entries are all \<open>v\<close>.\<close>

definition constant_grads :: "real \<Rightarrow> nat \<Rightarrow> params \<Rightarrow> string \<Rightarrow> tensor option" where
  "constant_grads v N P =
     map_of (map (\<lambda>p. (fst p, Tensor (N # shape (snd p))
                                 (replicate (N * prod_list (shape (snd p))) v))) P)"

section \<open>Basic facts\<close>

lemma ebind_Inr [simp]: "ebind (Inr x) f = f x"
  by (simp add: ebind_def)

lemma ebind_Inl [simp]: "ebind (Inl e) f = Inl e"
  by (simp add: ebind_def)

lemma ebind_eq_Inr: "ebind m f = Inr y \<longleftrightarrow> (\<exists>x. m = Inr x \<and> f x = Inr y)"
  by (cases m) simp_all

section \<open>Target-network smoothing\<close>




section \<open>The exponential moving average of the momentum network\<close>

lemma map_times_zero: "map ((*) (0::real)) xs = replicate (length xs) 0"
  by (induction xs) simp_all

lemma momentum_update_scaled:
  "list_all2 (\<lambda>nw gk. shape (snd nw) = shape gk \<and> vals (snd nw) = map ((*) c) (vals gk)) M g \<Longrightarrow>
   \<exists>M'. momentum_update M g = Inr M'
      \<and> list_all2 (\<lambda>nw gk. shape (snd nw) = shape gk
            \<and> vals (snd nw) = map ((*) (lambda_val * c + beta)) (vals gk)) M' g"
proof (induction M g rule: list_all2_induct)
  case Nil
  then show ?case by simp
next
  case (Cons x xs y ys)
  obtain n w where x: "x = (n, w)" by (cases x)
  from Cons obtain M' where M': "momentum_update xs ys = Inr M'"
    "list_all2 (\<lambda>nw gk. shape (snd nw) = shape gk
        \<and> vals (snd nw) = map ((*) (lambda_val * c + beta)) (vals gk)) M' ys"
    by blast
  from Cons(1) x have w: "shape w = shape y" "vals w = map ((*) c) (vals y)" by auto
  have "map2 (+) (map ((*) lambda_val) (map ((*) c) (vals y))) (map ((*) beta) (vals y))
        = map ((*) (lambda_val * c + beta)) (vals y)"
    by (simp add: zip_map_map zip_same_conv_map comp_def algebra_simps)
  with w have "tadd (smul lambda_val w) (smul beta y)
        = Inr (Tensor (shape y) (map ((*) (lambda_val * c + beta)) (vals y)))"
    by (simp add: tadd_def smul_def)
  then show ?case using M' by (simp add: x)
qed

lemma momentum_iterated:
  assumes "list_all2 (\<lambda>nw gk. shape (snd nw) = shape gk \<and> vals (snd nw) = map ((*) 0) (vals gk)) M0 g"
  shows "\<exists>M. ((\<lambda>r. ebind r (\<lambda>M. momentum_update M g)) ^^ n) (Inr M0) = Inr M
       \<and> list_all2 (\<lambda>nw gk. shape (snd nw) = shape gk
             \<and> vals (snd nw) = map ((*) (1 - lambda_val ^ n)) (vals gk)) M g"
proof (induction n)
  case 0
  from assms show ?case
    by (simp add: map_times_zero map_replicate_const)
next
  case (Suc n)
  then obtain M where M: "((\<lambda>r. ebind r (\<lambda>M. momentum_update M g)) ^^ n) (Inr M0) = Inr M"
    "list_all2 (\<lambda>nw gk. shape (snd nw) = shape gk
        \<and> vals (snd nw) = map ((*) (1 - lambda_val ^ n)) (vals gk)) M g" by blast
  from momentum_update_scaled [OF M(2)] obtain M' where
    M': "momentum_update M g = Inr M'"
    "list_all2 (\<lambda>nw gk. shape (snd nw) = shape gk
        \<and> vals (snd nw) = map ((*) (lambda_val * (1 - lambda_val ^ n) + beta)) (vals gk)) M' g"
    by blast
  have "lambda_val * (1 - lambda_val ^ n) + beta = 1 - lambda_val ^ Suc n"
    by (simp add: lambda_val_def beta_def algebra_simps)
  with M M' show ?case by simp
qed

lemma ema_limit: "(\<lambda>n. (1 - lambda_val ^ n) * x) \<longlonglongrightarrow> x * beta / (1 - lambda_val)"
proof -
  have "(^) lambda_val \<longlonglongrightarrow> 0"
    by (rule LIMSEQ_realpow_zero) (simp_all add: lambda_val_def)
  then have "(\<lambda>n. (1 - lambda_val ^ n) * x) \<longlonglongrightarrow> (1 - 0) * x"
    by (intro tendsto_mult tendsto_diff tendsto_const)
  then show ?thesis by (simp add: lambda_val_def beta_def)
qed

lemma ema_monotone:
  "(0 \<le> x \<longrightarrow> (1 - lambda_val ^ n) * x \<le> (1 - lambda_val ^ Suc n) * x
              \<and> (1 - lambda_val ^ Suc n) * x \<le> x * beta / (1 - lambda_val))
   \<and> (x \<le> 0 \<longrightarrow> x * beta / (1 - lambda_val) \<le> (1 - lambda_val ^ Suc n) * x
              \<and> (1 - lambda_val ^ Suc n) * x \<le> (1 - lambda_val ^ n) * x)"
proof -
  have lim: "x * beta / (1 - lambda_val) = x"
    by (simp add: lambda_val_def beta_def)
  have p: "0 \<le> lambda_val ^ Suc n" "lambda_val ^ Suc n \<le> lambda_val ^ n"
    by (simp_all add: lambda_val_def mult_left_le_one_le)
  have a: "1 - lambda_val ^ n \<le> 1 - lambda_val ^ Suc n" "1 - lambda_val ^ Suc n \<le> 1"
    using p by linarith+
  show ?thesis
    unfolding lim
    using a mult_right_mono [of "1 - lambda_val ^ n" "1 - lambda_val ^ Suc n" x]
      mult_right_mono [of "1 - lambda_val ^ Suc n" 1 x]
      mult_right_mono_neg [of "1 - lambda_val ^ n" "1 - lambda_val ^ Suc n" x]
      mult_right_mono_neg [of "1 - lambda_val ^ Suc n" 1 x]
    by auto
qed

text \<open>
  C7.  Start the momentum network at zero and feed the same gradient \<open>g\<close> to the update
  of lines 284--285 at every step.  Every step succeeds, and every entry of the momentum
  network follows a sequence \<open>x\<close> that tends to \<open>g * beta / (1 - lambda)\<close> for its entry of
  \<open>g\<close> and moves towards that limit monotonically: upwards and never beyond it when the
  limit is not negative, downwards and never below it when it is not positive.
\<close>

theorem momentum_converges:
  assumes "list_all2 (\<lambda>nw gk. shape (snd nw) = shape gk
              \<and> vals (snd nw) = replicate (length (vals gk)) 0) M0 g"
    and "k < length g" and "i < length (vals (g ! k))"
  shows "\<exists>x. (\<forall>n. \<exists>M. ((\<lambda>r. ebind r (\<lambda>M. momentum_update M g)) ^^ n) (Inr M0) = Inr M
                    \<and> vals (snd (M ! k)) ! i = x n)
           \<and> x \<longlonglongrightarrow> vals (g ! k) ! i * beta / (1 - lambda_val)
           \<and> (\<forall>n. 0 \<le> vals (g ! k) ! i \<longrightarrow>
                  x n \<le> x (Suc n) \<and> x (Suc n) \<le> vals (g ! k) ! i * beta / (1 - lambda_val))
           \<and> (\<forall>n. vals (g ! k) ! i \<le> 0 \<longrightarrow>
                  vals (g ! k) ! i * beta / (1 - lambda_val) \<le> x (Suc n) \<and> x (Suc n) \<le> x n)"
proof -
  let ?x = "\<lambda>n. (1 - lambda_val ^ n) * (vals (g ! k) ! i)"
  have z: "list_all2 (\<lambda>nw gk. shape (snd nw) = shape gk \<and> vals (snd nw) = map ((*) 0) (vals gk)) M0 g"
    using assms(1) by (simp add: map_times_zero)
  have run: "\<exists>M. ((\<lambda>r. ebind r (\<lambda>M. momentum_update M g)) ^^ n) (Inr M0) = Inr M
           \<and> vals (snd (M ! k)) ! i = ?x n" for n
  proof -
    from momentum_iterated [OF z, of n] obtain M where
      M: "((\<lambda>r. ebind r (\<lambda>M. momentum_update M g)) ^^ n) (Inr M0) = Inr M"
      "list_all2 (\<lambda>nw gk. shape (snd nw) = shape gk
          \<and> vals (snd nw) = map ((*) (1 - lambda_val ^ n)) (vals gk)) M g" by blast
    from M(2) assms(2,3) have "vals (snd (M ! k)) ! i = ?x n"
      by (auto simp: list_all2_conv_all_nth)
    with M(1) show ?thesis by blast
  qed
  show ?thesis
  proof (intro exI [of _ ?x] conjI)
    show "\<forall>n. \<exists>M. ((\<lambda>r. ebind r (\<lambda>M. momentum_update M g)) ^^ n) (Inr M0) = Inr M
           \<and> vals (snd (M ! k)) ! i = ?x n"
      using run by blast
    show "?x \<longlonglongrightarrow> vals (g ! k) ! i * beta / (1 - lambda_val)"
      by (rule ema_limit)
    show "\<forall>n. 0 \<le> vals (g ! k) ! i \<longrightarrow>
        ?x n \<le> ?x (Suc n) \<and> ?x (Suc n) \<le> vals (g ! k) ! i * beta / (1 - lambda_val)"
      using ema_monotone by blast
    show "\<forall>n. vals (g ! k) ! i \<le> 0 \<longrightarrow>
        vals (g ! k) ! i * beta / (1 - lambda_val) \<le> ?x (Suc n) \<and> ?x (Suc n) \<le> ?x n"
      using ema_monotone by blast
  qed
qed

theorem momentum_converges_witness:
  "\<exists>x. (\<forall>n. \<exists>M. ((\<lambda>r. ebind r (\<lambda>M. momentum_update M [Tensor [1] [2]])) ^^ n)
                     (Inr [(''fc3.bias'', Tensor [1] [0])]) = Inr M
                 \<and> vals (snd (M ! 0)) ! 0 = x n)
      \<and> x \<longlonglongrightarrow> 2 * beta / (1 - lambda_val)
      \<and> (\<forall>n. x n \<le> x (Suc n) \<and> x (Suc n) \<le> 2 * beta / (1 - lambda_val))"
  using momentum_converges [of "[(''fc3.bias'', Tensor [1] [0])]" "[Tensor [1] [2]]" 0 0]
  by simp


section \<open>Updates keep names and shapes\<close>

lemma shapes_momentum_update:
  "momentum_update M g = Inr M' \<Longrightarrow> shapes M' = shapes M"
  by (induction M g arbitrary: M' rule: momentum_update.induct)
    (auto simp: ebind_eq_Inr tadd_def smul_def shapes_def split: if_splits)

lemma shapes_accumulate:
  "accumulate M g = Inr M' \<Longrightarrow> shapes M' = shapes M"
  by (induction M g arbitrary: M' rule: accumulate.induct)
    (auto simp: ebind_eq_Inr tadd_def shapes_def split: if_splits)

lemma shapes_soft_update:
  "soft_update t P T = Inr T' \<Longrightarrow> shapes T' = shapes T"
  by (induction t P T arbitrary: T' rule: soft_update.induct)
    (auto simp: ebind_eq_Inr tadd_def smul_def shapes_def split: if_splits)

lemma shapes_RMSprop_step:
  "shapes (fst (RMSprop_step lr M g v)) = shapes M"
  by (induction lr M g v rule: RMSprop_step.induct)
    (simp_all add: shapes_def rmsprop_single_def Let_def split_def)

lemma shapes_adam_params:
  "shapes (fst (adam_params lr t P g m v)) = shapes P"
  by (induction lr t P g m v rule: adam_params.induct)
    (simp_all add: shapes_def adam_single_def Let_def split_def)

lemma shapes_Adam_step:
  "shapes (fst (Adam_step lr st P g)) = shapes P"
  using shapes_adam_params [of lr "Suc (step_count st)" P g "exp_avg st" "exp_avg_sq st"]
  by (simp add: Adam_step_def Let_def split_def)

lemma RAN_additions_shapes:
  "RAN_additions ar M P g gs v c = Inr r \<Longrightarrow> shapes (ran_m_qf1 r) = shapes M"
  by (auto simp: RAN_additions_def ebind_eq_Inr Let_def split_def
      shapes_RMSprop_step shapes_momentum_update)

lemma critic_update_frame:
  assumes "critic_update ex env ar k st = Inr (st', data)"
  shows "shapes (qf1 st') = shapes (qf1 st)" and "shapes (m_qf1 st') = shapes (m_qf1 st)"
    and "actor st' = actor st"
  using assms
  by (auto simp: critic_update_def ebind_eq_Inr Let_def split_def
      shapes_Adam_step RAN_additions_shapes)

lemma policy_update_frame:
  assumes "policy_update ex env ar data st = Inr st'"
  shows "qf1 st' = qf1 st" and "shapes (m_qf1 st') = shapes (m_qf1 st)"
  using assms
  by (auto simp: policy_update_def ebind_eq_Inr Let_def split_def shapes_accumulate)

lemma training_shapes:
  assumes "training ex env ar k st = Inr st'"
  shows "shapes (qf1 st') = shapes (qf1 st) \<and> shapes (m_qf1 st') = shapes (m_qf1 st)"
proof (cases "int k > learning_starts ar")
  case False
  with assms show ?thesis by (simp add: training_def)
next
  case True
  with assms obtain st2 data st3 where
    c: "critic_update ex env ar k st = Inr (st2, data)"
    and p: "(if policy_frequency ar = 0 then Inl ZeroDivisionError
             else if int k mod policy_frequency ar = 0 then policy_update ex env ar data st2
             else Inr st2) = Inr st3"
    and l: "(if k mod 100 = 0 \<and> actor_loss st3 = None then Inl (NameError ''actor_loss'')
             else Inr st3) = Inr st'"
    by (auto simp: training_def ebind_eq_Inr)
  from l have "st' = st3" by (simp split: if_splits)
  moreover from p have "shapes (qf1 st3) = shapes (qf1 st2) \<and> shapes (m_qf1 st3) = shapes (m_qf1 st2)"
    by (auto split: if_splits dest: policy_update_frame)
  ultimately show ?thesis
    using critic_update_frame(1,2) [OF c] by simp
qed

lemma loop_body_shapes:
  assumes "loop_body ex env ar k st = Inr st'"
  shows "shapes (qf1 st') = shapes (qf1 st) \<and> shapes (m_qf1 st') = shapes (m_qf1 st)"
  using assms
  by (auto simp: loop_body_def ebind_eq_Inr Let_def split_def dest!: training_shapes)

lemma run_shapes:
  "run ex env ar n st = Inr st' \<Longrightarrow>
   shapes (qf1 st') = shapes (qf1 st) \<and> shapes (m_qf1 st') = shapes (m_qf1 st)"
  by (induction n arbitrary: st') (auto simp: ebind_eq_Inr dest!: loop_body_shapes)

lemma shapes_QNetwork:
  "shapes (QNetwork env init) =
     [(''fc1.weight'', [256, obs_dim env + act_dim env]), (''fc1.bias'', [256]),
      (''fc2.weight'', [256, 256]), (''fc2.bias'', [256]),
      (''fc3.weight'', [1, 256]), (''fc3.bias'', [1])]"
  by (simp add: shapes_def QNetwork_def Linear_def)

lemma shapes_startup:
  "shapes (qf1 (startup ex env)) = shapes (QNetwork env init)"
  "shapes (m_qf1 (startup ex env)) = shapes (QNetwork env init)"
  by (simp_all add: startup_def Let_def shapes_QNetwork)
    (simp add: shapes_def QNetwork_def Linear_def fill_def)


section \<open>The run: warm-up, shapes and ranks\<close>

lemma rank_of_shapes:
  "shapes P = shapes (QNetwork env init) \<Longrightarrow>
   list_all (\<lambda>p. length (shape (snd p)) = 1 \<or> length (shape (snd p)) = 2) P"
proof -
  assume a: "shapes P = shapes (QNetwork env init)"
  have "list_all (\<lambda>p. length (snd p) = 1 \<or> length (snd p) = 2) (shapes P)"
    unfolding a by (simp add: shapes_QNetwork)
  then show ?thesis
    by (simp add: shapes_def list_all_iff)
qed

lemma m_grad_loop_total:
  "list_all (\<lambda>p. length (shape (snd p)) = 1 \<or> length (shape (snd p)) = 2) P \<Longrightarrow>
   m_grad_loop gs M P mnd c \<noteq> Inl (NameError ''m_nabla_delta_'')
   \<and> map_sum id fst (m_grad_loop gs M P mnd c) = map_sum id fst (m_grad_loop gs M P mnd c')"
proof (induction gs M P mnd c arbitrary: c' rule: m_grad_loop.induct)
  case (1 gs mn m ms name p ps m_nabla_delta m_nabla_delta_bc)
  let ?b = "if length (shape p) = 2 then Some (2, m_nabla_delta)
            else if length (shape p) = 1 then Some (1, m_nabla_delta) else m_nabla_delta_bc"
  let ?b' = "if length (shape p) = 2 then Some (2, m_nabla_delta)
            else if length (shape p) = 1 then Some (1, m_nabla_delta) else c'"
  from "1.prems" have r: "length (shape p) = 1 \<or> length (shape p) = 2"
    and rs: "list_all (\<lambda>p. length (shape (snd p)) = 1 \<or> length (shape (snd p)) = 2) ps"
    by simp_all
  from r obtain k where b: "?b = Some (k, m_nabla_delta)" "?b' = Some (k, m_nabla_delta)"
    by auto
  show ?case
  proof (cases "gs name")
    case None
    then show ?thesis by simp
  next
    case (Some nabla_deltas)
    show ?thesis
    proof (cases "mul_bc (k, m_nabla_delta) nabla_deltas")
      case (Inl e)
      then have "e = ShapeError"
        by (auto simp: mul_bc_def split: list.splits if_splits)
      with Inl Some b show ?thesis by (simp del: m_grad_loop.simps add: m_grad_loop.simps(1) Let_def)
    next
      case (Inr prod)
      note prod = this
      show ?thesis
      proof (cases "mean0 prod")
        case (Inl e)
        then have "e = ShapeError \<or> e = NotANumber"
          by (auto simp: mean0_def split: list.splits if_splits)
        with Inl prod Some b show ?thesis by (auto simp: Let_def)
      next
        case (Inr R)
        show ?thesis
        proof (cases "shape R \<noteq> shape m")
          case True
          with Inr prod Some b show ?thesis by (simp add: Let_def)
        next
          case False
          have ih: "m_grad_loop gs ms ps m_nabla_delta (Some (k, m_nabla_delta))
                      \<noteq> Inl (NameError ''m_nabla_delta_'')"
            using "1.IH" [OF Some refl b(1) False rs] unfolding b(1) by blast
          show ?thesis
            using Inr prod Some b False ih
            by (cases "m_grad_loop gs ms ps m_nabla_delta (Some (k, m_nabla_delta))")
              (auto simp: Let_def split_def)
        qed
      qed
    qed
  qed
qed simp_all


section \<open>The forward pass and the last bias\<close>

lemma sum_list_zeros [simp]: "sum_list (replicate n (0::real)) = 0"
  by (induction n) simp_all

lemma dot_zeros [simp]: "dot (replicate n 0) x = 0"
proof -
  have "map2 (*) (replicate n (0::real)) x = replicate (min n (length x)) 0"
    by (induction n arbitrary: x) (auto simp: zip_Cons1 split: list.splits)
  then show ?thesis
    by (simp add: dot_def)
qed

lemma row_zeros [simp]: "row k (replicate n 0) i = replicate (min k (n - i * k)) 0"
  by (simp add: row_def)

lemma add_zeros [simp]: "length ys = n \<Longrightarrow> map2 (+) (replicate n (0::real)) ys = ys"
  by (induction ys arbitrary: n) (auto simp: zip_Cons1 split: list.splits)

lemma relu_zeros [simp]: "relu (replicate n 0) = replicate n 0"
  by (simp add: relu_def)

lemma fc_zero_weight:
  assumes "map_of P (name @ ''.weight'') = Some (Tensor [out_f, in_f] (replicate n 0))"
    and "map_of P (name @ ''.bias'') = Some (Tensor [out_f] bs)"
    and "length bs = out_f" and "length x = in_f"
  shows "fc P name x = Inr bs"
  using assms by (simp add: fc_def map_replicate_trivial)







section \<open>The concrete run\<close>

lemmas world_defs = startup_def ex1_def env1_def Actor_def QNetwork_def Linear_def Let_def fill_def
  zeros_like_def Adam_def map_replicate_trivial map_replicate_const default_args_def args1_def
  loop_body_def select_action_def training_def critic_update_def policy_update_def
  rb_add_def rb_sample_def Actor_forward_def QNetwork_forward_def fc_def action_scale_def
  action_bias_def qf1_loss_def compute_sample_nabla_delta_def compute_nabla_delta_def
  compute_delta_def stack_def autograd1_def shift_fc3_bias_def projr_or_def RAN_additions_def
  tadd_def smul_def lambda_val_def beta_def mul_unsqueeze_def reshape_sum_def mul_bc_def
  mean0_def rmsprop_single_def Adam_step_def adam_single_def actor_loss_of_def split_def row_def

lemma state1_reached:
  "run ex1 env1 args1 (Suc (Suc 0)) (startup ex1 env1)
     = training ex1 env1 args1 (Suc 0) state1"
proof -
  have skip: "training ex1 env1 args1 0 st = Inr st" for st
    by (simp add: training_def args1_def)
  have start: "obs (startup ex1 env1) = [0]" "rb (startup ex1 env1) = []"
    "actor (startup ex1 env1) = Actor env1 (\<lambda>_ _. 0)"
    by (simp_all add: startup_def ex1_def Let_def)
  have act: "select_action ex1 env1 args1 k st = Inr [0]"
    if "actor st = Actor env1 (\<lambda>_ _. 0)" "obs st = [0]" for k and st :: "unit state"
    using that
    by (simp add: select_action_def args1_def default_args_def Actor_forward_def fc_def
        Actor_def Linear_def env1_def ex1_def action_scale_def action_bias_def
        map_replicate_trivial del: upt_rec_numeral)
  have pass0: "loop_body ex1 env1 args1 0 (startup ex1 env1)
      = Inr ((startup ex1 env1)\<lparr>rb := [transition1], obs := [0], envs := ()\<rparr>)"
    by (simp add: loop_body_def act start skip)
      (simp add: ex1_def rb_add_def args1_def default_args_def transition1_def)
  have pass1: "loop_body ex1 env1 args1 (Suc 0)
        ((startup ex1 env1)\<lparr>rb := [transition1], obs := [0], envs := ()\<rparr>)
      = training ex1 env1 args1 (Suc 0) state1"
    by (simp add: loop_body_def act start)
      (simp add: ex1_def rb_add_def args1_def default_args_def transition1_def state1_def
        startup_def Let_def)
  show ?thesis
    by (simp add: pass0 pass1)
qed

lemma learning_run_returns:
  "\<exists>st. run ex1 env1 args1 (Suc (Suc 0)) (startup ex1 env1) = Inr st"
  unfolding state1_reached
  by (simp add: world_defs state1_def transition1_def power2_eq_square del: upt_rec_numeral)

lemma warmup_run_returns:
  "\<exists>st. run ex1 env1 default_args (Suc (Suc 0)) (startup ex1 env1) = Inr st"
  by (simp add: world_defs del: upt_rec_numeral)

section \<open>Warm-up\<close>

lemma loop_body_warmup:
  assumes "int k < learning_starts ar" and "loop_body ex env ar k st = Inr st'"
  shows "\<exists>t o' e'. st' = st\<lparr>rb := rb_add (buffer_size ar) (rb st) t, obs := o', envs := e'\<rparr>"
  using assms
  by (auto simp: loop_body_def select_action_def training_def ebind_eq_Inr Let_def split_def
      split: if_splits option.splits)

lemma length_rb_add:
  "length buf = min n capacity \<Longrightarrow> length (rb_add capacity buf t) = min (Suc n) capacity"
  by (cases buf) (auto simp: rb_add_def min_def split: if_splits)

lemma run_warmup:
  assumes "int n \<le> learning_starts ar" and "run ex env ar n st0 = Inr st" and "rb st0 = []"
  shows "\<exists>r o' e'. st = st0\<lparr>rb := r, obs := o', envs := e'\<rparr> \<and> length r = min n (buffer_size ar)"
  using assms
proof (induction n arbitrary: st)
  case 0
  then show ?case
    by (auto intro!: exI [of _ "rb st0"] exI [of _ "obs st0"] exI [of _ "envs st0"])
next
  case (Suc n)
  from Suc.prems(2) obtain st1 where st1: "run ex env ar n st0 = Inr st1"
    and st: "loop_body ex env ar n st1 = Inr st"
    by (auto simp: ebind_eq_Inr)
  from Suc.IH [OF _ st1 Suc.prems(3)] Suc.prems(1) obtain r o' e' where
    r: "st1 = st0\<lparr>rb := r, obs := o', envs := e'\<rparr>" "length r = min n (buffer_size ar)"
    by auto
  from Suc.prems(1) have "int n < learning_starts ar" by simp
  from loop_body_warmup [OF this st] obtain t o'' e'' where
    "st = st1\<lparr>rb := rb_add (buffer_size ar) (rb st1) t, obs := o'', envs := e''\<rparr>"
    by blast
  with r have "st = st0\<lparr>rb := rb_add (buffer_size ar) r t, obs := o'', envs := e''\<rparr>"
    "length (rb_add (buffer_size ar) r t) = min (Suc n) (buffer_size ar)"
    by (simp_all add: length_rb_add)
  then show ?case by blast
qed

text \<open>
  C6.  After the passes of the loop for \<open>global_step = 0, ..., n - 1\<close>, all of them
  before \<^verbatim>\<open>learning_starts\<close>, the parameters of the actor, of the critic and of the
  momentum network are those of the start, and the replay buffer holds one transition
  for every pass (up to its capacity).
\<close>

theorem warmup_changes_no_parameter:
  assumes "int n \<le> learning_starts ar" and "run ex env ar n (startup ex env) = Inr st"
  shows "actor st = actor (startup ex env) \<and> qf1 st = qf1 (startup ex env)
       \<and> m_qf1 st = m_qf1 (startup ex env) \<and> length (rb st) = min n (buffer_size ar)"
proof -
  have "rb (startup ex env) = []"
    by (simp add: startup_def Let_def)
  from run_warmup [OF assms this] show ?thesis by auto
qed

theorem warmup_changes_no_parameter_witness:
  "int 2 \<le> learning_starts default_args
   \<and> (\<exists>st. run ex1 env1 default_args 2 (startup ex1 env1) = Inr st
        \<and> actor st = actor (startup ex1 env1) \<and> qf1 st = qf1 (startup ex1 env1)
        \<and> m_qf1 st = m_qf1 (startup ex1 env1) \<and> length (rb st) = 2)"
proof -
  from warmup_run_returns obtain st where
    st: "run ex1 env1 default_args 2 (startup ex1 env1) = Inr st"
    by (auto simp: numeral_2_eq_2)
  have le: "int 2 \<le> learning_starts default_args"
    by (simp add: default_args_def)
  from warmup_changes_no_parameter [OF le st] st le show ?thesis
    by (auto simp: default_args_def)
qed

text \<open>
  C5.  At the pass with \<^verbatim>\<open>global_step\<close> equal to \<^verbatim>\<open>learning_starts\<close> the guard of line
  260 is false: the training of that pass leaves the state as it is.
\<close>

theorem no_update_at_learning_starts:
  "training ex env (ar\<lparr>learning_starts := int k\<rparr>) k st = Inr st"
  by (simp add: training_def)

section \<open>Shapes along the run\<close>

lemma momentum_update_succeeds:
  "map (\<lambda>m. shape (snd m)) M = map shape g \<Longrightarrow> \<exists>M'. momentum_update M g = Inr M'"
proof (induction M arbitrary: g)
  case Nil
  then show ?case by simp
next
  case (Cons m M)
  then obtain gk g' where g: "g = gk # g'" by (cases g) auto
  with Cons.prems have "shape (snd m) = shape gk" "map (\<lambda>m. shape (snd m)) M = map shape g'"
    by simp_all
  with Cons.IH [of g'] show ?case
    by (cases m) (auto simp: g tadd_def smul_def)
qed

text \<open>
  C8.  In every state that the loop reaches from the start, that is at the start and
  after every pass, the momentum network has the critic's parameter names and shapes.
  In such a state the moving average of lines 284--285, the one assignment that builds
  new tensors for the momentum network, succeeds and keeps these shapes whenever the
  gradients have the shapes of the critic's parameters.
\<close>

theorem momentum_shape_invariant:
  assumes "run ex env ar n (startup ex env) = Inr st"
  shows "shapes (m_qf1 st) = shapes (qf1 st)
       \<and> (map shape g = map (\<lambda>p. shape (snd p)) (qf1 st) \<longrightarrow>
            (\<exists>M'. momentum_update (m_qf1 st) g = Inr M' \<and> shapes M' = shapes (qf1 st)))"
proof (intro conjI impI)
  show inv: "shapes (m_qf1 st) = shapes (qf1 st)"
    using run_shapes [OF assms] shapes_startup [of ex env] by simp
  assume g: "map shape g = map (\<lambda>p. shape (snd p)) (qf1 st)"
  from inv have "map snd (shapes (m_qf1 st)) = map snd (shapes (qf1 st))" by simp
  then have "map (\<lambda>m. shape (snd m)) (m_qf1 st) = map (\<lambda>p. shape (snd p)) (qf1 st)"
    by (simp add: shapes_def comp_def)
  with g momentum_update_succeeds [of "m_qf1 st" g] obtain M' where
    "momentum_update (m_qf1 st) g = Inr M'" by auto
  with inv shapes_momentum_update [of "m_qf1 st" g M']
  show "\<exists>M'. momentum_update (m_qf1 st) g = Inr M' \<and> shapes M' = shapes (qf1 st)"
    by simp
qed

theorem momentum_shape_invariant_witness:
  "\<exists>st. run ex1 env1 args1 2 (startup ex1 env1) = Inr st
      \<and> shapes (m_qf1 st) = shapes (qf1 st)
      \<and> map shape (map snd (qf1 st)) = map (\<lambda>p. shape (snd p)) (qf1 st)
      \<and> (\<exists>M'. momentum_update (m_qf1 st) (map snd (qf1 st)) = Inr M'
             \<and> shapes M' = shapes (qf1 st))"
proof -
  from learning_run_returns obtain st where
    st: "run ex1 env1 args1 2 (startup ex1 env1) = Inr st"
    by (auto simp: numeral_2_eq_2)
  from momentum_shape_invariant [OF st, of "map snd (qf1 st)"] st show ?thesis by simp
qed

text \<open>
  C10.  Every parameter of a freshly constructed critic, and of the critic in every
  state that the loop reaches, has rank 1 or 2.  So the loop of lines 306--321 assigns
  \<^verbatim>\<open>m_nabla_delta_\<close> in every iteration: it never finds the variable unbound, and the
  gradients it produces do not depend on the value the variable had before.
\<close>

theorem critic_ranks_total:
  "list_all (\<lambda>p. length (shape (snd p)) = 1 \<or> length (shape (snd p)) = 2) (QNetwork env init)
   \<and> (run ex env ar n (startup ex env) = Inr st \<longrightarrow>
        list_all (\<lambda>p. length (shape (snd p)) = 1 \<or> length (shape (snd p)) = 2) (qf1 st)
        \<and> m_grad_loop gs M (qf1 st) mnd c \<noteq> Inl (NameError ''m_nabla_delta_'')
        \<and> map_sum id fst (m_grad_loop gs M (qf1 st) mnd c)
            = map_sum id fst (m_grad_loop gs M (qf1 st) mnd None))"
proof (intro conjI impI)
  show "list_all (\<lambda>p. length (shape (snd p)) = 1 \<or> length (shape (snd p)) = 2)
          (QNetwork env init)"
    by (rule rank_of_shapes) simp
next
  assume r: "run ex env ar n (startup ex env) = Inr st"
  have "shapes (qf1 st) = shapes (QNetwork env init)"
    using run_shapes [OF r] shapes_startup(1) [of ex env init] by simp
  then show ranks: "list_all (\<lambda>p. length (shape (snd p)) = 1 \<or> length (shape (snd p)) = 2) (qf1 st)"
    by (rule rank_of_shapes)
  from m_grad_loop_total [OF ranks]
  show "m_grad_loop gs M (qf1 st) mnd c \<noteq> Inl (NameError ''m_nabla_delta_'')"
    and "map_sum id fst (m_grad_loop gs M (qf1 st) mnd c)
            = map_sum id fst (m_grad_loop gs M (qf1 st) mnd None)"
    by blast+
qed

theorem critic_ranks_total_witness:
  "\<exists>st. run ex1 env1 args1 2 (startup ex1 env1) = Inr st
      \<and> list_all (\<lambda>p. length (shape (snd p)) = 1 \<or> length (shape (snd p)) = 2) (qf1 st)
      \<and> m_grad_loop Map.empty (m_qf1 st) (qf1 st) [0] None \<noteq> Inl (NameError ''m_nabla_delta_'')"
proof -
  from learning_run_returns obtain st where
    st: "run ex1 env1 args1 2 (startup ex1 env1) = Inr st"
    by (auto simp: numeral_2_eq_2)
  from critic_ranks_total [of env1 "\<lambda>_ _. 0" ex1 args1 2 st Map.empty "m_qf1 st" "[0]" None] st
  show ?thesis by blast
qed


section \<open>A zero momentum network gives a zero reshaped gradient\<close>

lemma block_fits: "i < N \<Longrightarrow> k \<le> N * k - i * k" for i N k :: nat
proof -
  assume "i < N"
  then have "Suc i \<le> N" by simp
  then have "Suc i * k \<le> N * k" by (rule mult_le_mono1)
  then show ?thesis by simp
qed

lemma length_row: "length xs = N * k \<Longrightarrow> i < N \<Longrightarrow> length (row k xs i) = k"
  using block_fits [of i N k] by (simp add: row_def)

lemma concat_zero_blocks:
  "concat (map (\<lambda>i. replicate k (0::real)) [0..<N]) = replicate (N * k) 0"
  by (induction N) (simp_all add: replicate_add [symmetric] add.commute)

lemma times_zeros: "map2 (*) (replicate k (0::real)) xs = replicate (min k (length xs)) 0"
  by (induction k arbitrary: xs) (auto simp: zip_Cons1 split: list.splits)

lemma mul_unsqueeze_zero:
  assumes "shape G = N # s" and "well_formed G"
  shows "mul_unsqueeze (Tensor s (replicate (prod_list s) 0)) G
           = Inr (Tensor (N # s) (replicate (N * prod_list s) 0))"
proof -
  from assms have len: "length (vals G) = N * prod_list s"
    by (simp add: well_formed_def)
  have eq: "map (\<lambda>i. map2 (*) (replicate (prod_list s) 0) (row (prod_list s) (vals G) i)) [0..<N]
        = map (\<lambda>i. replicate (prod_list s) 0) [0..<N]"
    by (rule map_cong) (simp_all add: times_zeros length_row [OF len])
  show ?thesis
    unfolding mul_unsqueeze_def using assms(1)
    by (simp add: eq concat_zero_blocks del: map_eq_conv)
qed

lemma reshape_sum_zero:
  "0 < N \<Longrightarrow> reshape_sum N (Tensor sh (replicate (N * k) 0)) = Inr (replicate N 0)"
  by (simp add: reshape_sum_def map_replicate_trivial)

lemma mul_bc_zero:
  assumes "shape G = N # s" and "well_formed G" and "length s = r"
  shows "mul_bc (r, replicate N 0) G = Inr (Tensor (N # s) (replicate (N * prod_list s) 0))"
proof -
  from assms have len: "length (vals G) = N * prod_list s"
    by (simp add: well_formed_def)
  have eq: "map (\<lambda>i. map ((*) (replicate N 0 ! i)) (row (prod_list s) (vals G) i)) [0..<N]
        = map (\<lambda>i. replicate (prod_list s) 0) [0..<N]"
    by (rule map_cong) (simp_all add: length_row [OF len] map_times_zero)
  show ?thesis
    unfolding mul_bc_def using assms(1,3)
    by (simp add: eq concat_zero_blocks del: map_eq_conv)
qed

lemma foldr_add_zeros:
  "foldr (map2 (+)) (map (\<lambda>i. replicate k (0::real)) xs) (replicate k 0) = replicate k 0"
  by (induction xs) simp_all

lemma mean0_zero:
  assumes "0 < N"
  shows "mean0 (Tensor (N # s) (replicate (N * prod_list s) 0))
           = Inr (Tensor s (replicate (prod_list s) 0))"
proof -
  have eq: "map (row (prod_list s) (replicate (N * prod_list s) 0)) [0..<N]
        = map (\<lambda>i. replicate (prod_list s) 0) [0..<N]"
    by (rule map_cong) (simp_all add: block_fits min_absorb1)
  have inner: "foldr (map2 (+)) (map (row (prod_list s) (replicate (N * prod_list s) 0)) [0..<N])
                 (replicate (prod_list s) 0) = replicate (prod_list s) 0"
    unfolding eq by (rule foldr_add_zeros)
  show ?thesis
    using assms by (simp add: mean0_def inner del: row_zeros)
qed

lemma m_nabla_delta_loop_zero:
  assumes "list_all2 (\<lambda>m p. snd m = Tensor (shape (snd p)) (replicate (prod_list (shape (snd p))) 0)) M P"
    and "per_sample_grads N P gs" and "0 < N"
  shows "m_nabla_delta_loop N gs M P (replicate N 0) = Inr (replicate N 0)"
  using assms
proof (induction M P rule: list_all2_induct)
  case Nil
  then show ?case by simp
next
  case (Cons m ms p ps)
  obtain mn mt where m: "m = (mn, mt)" by (cases m)
  obtain name pt where p: "p = (name, pt)" by (cases p)
  from Cons.prems(1) p obtain G where G: "gs name = Some G" "shape G = N # shape pt" "well_formed G"
    by (auto simp: per_sample_grads_def split: option.splits)
  from Cons.prems(1) have rest: "per_sample_grads N ps gs"
    by (simp add: per_sample_grads_def)
  from Cons.hyps(1) m p have mt: "mt = Tensor (shape pt) (replicate (prod_list (shape pt)) 0)"
    by simp
  show ?case
    using Cons.IH [OF rest Cons.prems(2)] G Cons.prems(2)
    by (simp add: m p mt mul_unsqueeze_zero reshape_sum_zero)
qed

lemma m_grad_loop_zero:
  assumes "list_all2 (\<lambda>m p. shape (snd m) = shape (snd p)) M P"
    and "list_all (\<lambda>p. length (shape (snd p)) = 1 \<or> length (shape (snd p)) = 2) P"
    and "per_sample_grads N P gs" and "0 < N"
  shows "\<exists>c'. m_grad_loop gs M P (replicate N 0) c
           = Inr (map (\<lambda>p. Tensor (shape (snd p)) (replicate (prod_list (shape (snd p))) 0)) P, c')"
  using assms
proof (induction M P arbitrary: c rule: list_all2_induct)
  case Nil
  then show ?case by simp
next
  case (Cons m ms p ps)
  obtain mn mt where m: "m = (mn, mt)" by (cases m)
  obtain name pt where p: "p = (name, pt)" by (cases p)
  from Cons.prems(2) p obtain G where G: "gs name = Some G" "shape G = N # shape pt" "well_formed G"
    by (auto simp: per_sample_grads_def split: option.splits)
  from Cons.prems(2) have rest: "per_sample_grads N ps gs"
    by (simp add: per_sample_grads_def)
  from Cons.prems(1) p have rk: "length (shape pt) = 1 \<or> length (shape pt) = 2"
    and rks: "list_all (\<lambda>p. length (shape (snd p)) = 1 \<or> length (shape (snd p)) = 2) ps"
    by simp_all
  from Cons.hyps(1) m p have sh: "shape mt = shape pt" by simp
  let ?c = "if length (shape pt) = 2 then Some (2, replicate N 0)
            else if length (shape pt) = 1 then Some (1, replicate N 0) else c"
  from rk have c: "?c = Some (length (shape pt), replicate N 0)" by auto
  from Cons.IH [OF rks rest Cons.prems(3), of ?c] obtain c' where
    ih: "m_grad_loop gs ms ps (replicate N 0) ?c
           = Inr (map (\<lambda>p. Tensor (shape (snd p)) (replicate (prod_list (shape (snd p))) 0)) ps, c')"
    by blast
  have "m_grad_loop gs (m # ms) (p # ps) (replicate N 0) c
          = Inr (map (\<lambda>p. Tensor (shape (snd p)) (replicate (prod_list (shape (snd p))) 0)) (p # ps), c')"
    unfolding m p
    apply (subst m_grad_loop.simps(1))
    apply (simp only: G option.case Let_def)
    apply (subst (1 2) c)
    apply (simp add: mul_bc_zero [OF G(2,3) refl] mean0_zero [OF Cons.prems(3)] sh)
    apply (simp add: ih [unfolded c])
    done
  then show ?case by blast
qed

text \<open>
  C4.  Let the momentum network be zero in every entry when lines 294--321 run, with the
  shapes of the critic's parameters (which have rank 1 or 2), and let \<open>gs\<close> hold for every
  parameter a well-formed stack of \<open>N > 0\<close> per-sample gradients with arbitrary entries.
  Then the projections \<^verbatim>\<open>m_nabla_delta\<close> are all zero, and the reshaped gradient
  \<^verbatim>\<open>m_nabla_delta_nabla_delta\<close> assigned to \<^verbatim>\<open>m.grad\<close> is the zero tensor for every
  parameter.
\<close>

theorem zero_momentum_zero_gradient:
  assumes "list_all2 (\<lambda>m p. snd m = Tensor (shape (snd p)) (replicate (prod_list (shape (snd p))) 0)) M P"
    and "list_all (\<lambda>p. length (shape (snd p)) = 1 \<or> length (shape (snd p)) = 2) P"
    and "per_sample_grads N P gs" and "0 < N"
  shows "m_nabla_delta_loop N gs M P (replicate N 0) = Inr (replicate N 0)
       \<and> (\<exists>c'. m_grad_loop gs M P (replicate N 0) c
             = Inr (map (\<lambda>p. Tensor (shape (snd p)) (replicate (prod_list (shape (snd p))) 0)) P, c'))"
proof -
  have "list_all2 (\<lambda>m p. shape (snd m) = shape (snd p)) M P"
    using assms(1) by (rule list_all2_mono) simp
  from m_nabla_delta_loop_zero [OF assms(1,3,4)] m_grad_loop_zero [OF this assms(2,3,4)]
  show ?thesis by blast
qed

theorem zero_momentum_zero_gradient_witness:
  "m_nabla_delta_loop 1 (constant_grads 7 1 (qf1 state1)) (m_qf1 state1) (qf1 state1) [0] = Inr [0]
   \<and> (\<exists>c'. m_grad_loop (constant_grads 7 1 (qf1 state1)) (m_qf1 state1) (qf1 state1) [0] None
         = Inr (map (\<lambda>p. Tensor (shape (snd p)) (replicate (prod_list (shape (snd p))) 0))
                  (qf1 state1), c'))"
proof -
  have z: "list_all2 (\<lambda>m p. snd m = Tensor (shape (snd p)) (replicate (prod_list (shape (snd p))) 0))
             (m_qf1 state1) (qf1 state1)"
    by (simp add: state1_def startup_def Let_def QNetwork_def Linear_def fill_def
        map_replicate_const)
  have r: "list_all (\<lambda>p. length (shape (snd p)) = 1 \<or> length (shape (snd p)) = 2) (qf1 state1)"
    by (simp add: state1_def startup_def Let_def QNetwork_def Linear_def)
  have g: "per_sample_grads 1 (qf1 state1) (constant_grads 7 1 (qf1 state1))"
    by (simp add: state1_def startup_def Let_def QNetwork_def Linear_def per_sample_grads_def
        constant_grads_def well_formed_def)
  from zero_momentum_zero_gradient [OF z r g, of None] show ?thesis
    by simp
qed


section \<open>Lines 294--321 compute the reshaped gradient of the specification\<close>

lemma row_concat:
  "\<forall>b \<in> set bs. length b = k \<Longrightarrow> i < length bs \<Longrightarrow> row k (concat bs) i = bs ! i"
proof (induction bs arbitrary: i)
  case Nil
  then show ?case by simp
next
  case (Cons b bs)
  show ?case
  proof (cases i)
    case 0
    with Cons.prems show ?thesis by (simp add: row_def)
  next
    case (Suc j)
    with Cons.prems have "row k (concat bs) j = bs ! j"
      by (intro Cons.IH) simp_all
    moreover have "row k (concat (b # bs)) (Suc j) = row k (concat bs) j"
      using Cons.prems(1) by (simp add: row_def)
    ultimately show ?thesis using Suc by simp
  qed
qed

lemma rows_of_blocks:
  assumes "\<And>i. i < N \<Longrightarrow> length (f i) = k"
  shows "map (row k (concat (map f [0..<N]))) [0..<N] = map f [0..<N]"
proof (rule map_cong [OF refl])
  fix i assume "i \<in> set [0..<N]"
  then have i: "i < N" by simp
  have "row k (concat (map f [0..<N])) i = map f [0..<N] ! i"
    by (rule row_concat) (use assms i in auto)
  with i show "row k (concat (map f [0..<N])) i = f i" by simp
qed

lemma length_concat_blocks:
  assumes "\<And>i. i < N \<Longrightarrow> length (f i) = k"
  shows "length (concat (map f [0..<N])) = N * k"
proof -
  have "map (length \<circ> f) [0..<N] = map (\<lambda>_. k) [0..<N]"
    by (rule map_cong) (use assms in auto)
  then show ?thesis
    by (simp add: length_concat map_replicate_trivial sum_list_replicate)
qed

lemma column_sums:
  assumes "\<forall>x \<in> set xs. length (f x) = k"
  shows "foldr (map2 (+)) (map f xs) (replicate k 0)
           = map (\<lambda>j. \<Sum>x\<leftarrow>xs. (f x ! j :: real)) [0..<k]"
  using assms
proof (induction xs)
  case Nil
  then show ?case by (simp add: map_replicate_trivial)
next
  case (Cons x xs)
  then have l: "length (f x) = k" and ih: "foldr (map2 (+)) (map f xs) (replicate k 0)
      = map (\<lambda>j. \<Sum>x\<leftarrow>xs. f x ! j) [0..<k]"
    by simp_all
  have fx: "map (\<lambda>j. f x ! j) [0..<k] = f x"
    using map_nth [of "f x"] l by simp
  have "map2 (+) (map (\<lambda>j. f x ! j) [0..<k]) (map (\<lambda>j. \<Sum>x\<leftarrow>xs. f x ! j) [0..<k])
          = map (\<lambda>j. f x ! j + (\<Sum>x\<leftarrow>xs. f x ! j)) [0..<k]"
    by (simp add: zip_map_map zip_same_conv_map comp_def)
  then have "map2 (+) (f x) (map (\<lambda>j. \<Sum>x\<leftarrow>xs. f x ! j) [0..<k])
          = map (\<lambda>j. f x ! j + (\<Sum>x\<leftarrow>xs. f x ! j)) [0..<k]"
    unfolding fx .
  with ih show ?case by simp
qed

lemma reshape_sum_products:
  assumes "shape G = N # s" and "well_formed G" and "length xs = prod_list s" and "0 < N"
  shows "ebind (mul_unsqueeze (Tensor s xs) G) (reshape_sum N)
           = Inr (map (\<lambda>i. dot xs (sample G i)) [0..<N])"
proof -
  let ?k = "prod_list s"
  let ?f = "\<lambda>i. map2 (*) xs (row ?k (vals G) i)"
  from assms have len: "length (vals G) = N * ?k"
    by (simp add: well_formed_def)
  have lf: "length (?f i) = ?k" if "i < N" for i
    using that assms(3) by (simp add: length_row [OF len])
  have m: "mul_unsqueeze (Tensor s xs) G = Inr (Tensor (N # s) (concat (map ?f [0..<N])))"
    using assms(1) by (simp add: mul_unsqueeze_def)
  have n: "length (concat (map ?f [0..<N])) = N * ?k"
    by (rule length_concat_blocks) (rule lf)
  have "map (row ?k (concat (map ?f [0..<N]))) [0..<N] = map ?f [0..<N]"
    by (rule rows_of_blocks) (rule lf)
  then have "map sum_list (map (row ?k (concat (map ?f [0..<N]))) [0..<N])
          = map sum_list (map ?f [0..<N])"
    by (rule arg_cong)
  then have "map (\<lambda>i. sum_list (row ?k (concat (map ?f [0..<N])) i)) [0..<N]
          = map (\<lambda>i. sum_list (?f i)) [0..<N]"
    by (simp add: comp_def del: map_eq_conv)
  then show ?thesis
    using assms(1,4) by (simp add: m reshape_sum_def n dot_def sample_def)
qed

lemma mean_of_scaled:
  assumes "shape G = N # s" and "well_formed G" and "length s = r" and "0 < N"
  shows "ebind (mul_bc (r, map c [0..<N]) G) mean0 = Inr (spec_reshaped N c G)"
proof -
  let ?k = "prod_list s"
  let ?f = "\<lambda>i. map ((*) (map c [0..<N] ! i)) (row ?k (vals G) i)"
  let ?g = "\<lambda>i. map ((*) (c i)) (row ?k (vals G) i)"
  from assms have len: "length (vals G) = N * ?k"
    by (simp add: well_formed_def)
  have fg: "map ?f [0..<N] = map ?g [0..<N]"
    by (rule map_cong) simp_all
  have lg: "length (?g i) = ?k" if "i < N" for i
    using that by (simp add: length_row [OF len])
  have m: "mul_bc (r, map c [0..<N]) G = Inr (Tensor (N # s) (concat (map ?g [0..<N])))"
    using assms(1,3) by (simp add: mul_bc_def fg)
  have rows: "map (row ?k (concat (map ?g [0..<N]))) [0..<N] = map ?g [0..<N]"
    by (rule rows_of_blocks) (rule lg)
  have cols: "foldr (map2 (+)) (map ?g [0..<N]) (replicate ?k 0)
                = map (\<lambda>j. \<Sum>i\<leftarrow>[0..<N]. ?g i ! j) [0..<?k]"
    by (rule column_sums) (use lg in auto)
  have "map (\<lambda>j. (\<Sum>i\<leftarrow>[0..<N]. ?g i ! j) / real N) [0..<?k]
          = map (\<lambda>j. (\<Sum>i\<leftarrow>[0..<N]. c i * sample G i ! j) / real N) [0..<?k]"
  proof (rule map_cong [OF refl])
    fix j assume "j \<in> set [0..<?k]"
    then have j: "j < ?k" by simp
    have "map (\<lambda>i. ?g i ! j) [0..<N] = map (\<lambda>i. c i * sample G i ! j) [0..<N]"
      by (rule map_cong) (use j assms(1) in \<open>simp_all add: length_row [OF len] sample_def\<close>)
    then have "sum_list (map (\<lambda>i. ?g i ! j) [0..<N])
                 = sum_list (map (\<lambda>i. c i * sample G i ! j) [0..<N])"
      by (rule arg_cong)
    then show "(\<Sum>i\<leftarrow>[0..<N]. ?g i ! j) / real N
                 = (\<Sum>i\<leftarrow>[0..<N]. c i * sample G i ! j) / real N"
      by (rule arg_cong)
  qed
  then show ?thesis
    using assms(1,4) by (simp add: m mean0_def rows cols spec_reshaped_def comp_def)
qed


lemma ebind_assoc: "ebind (ebind m f) g = ebind m (\<lambda>x. ebind (f x) g)"
  by (cases m) simp_all

lemma m_nabla_delta_loop_formula:
  assumes "list_all2 (\<lambda>m p. fst m = fst p \<and> shape (snd m) = shape (snd p) \<and> well_formed (snd m)) M P"
    and "per_sample_grads N P gs" and "0 < N"
  shows "m_nabla_delta_loop N gs M P (map f [0..<N])
           = Inr (map (\<lambda>i. f i + spec_projection M gs i) [0..<N])"
  using assms
proof (induction M P arbitrary: f rule: list_all2_induct)
  case Nil
  then show ?case by (simp add: spec_projection_def)
next
  case (Cons m ms p ps)
  obtain mn mt where m: "m = (mn, mt)" by (cases m)
  obtain name pt where p: "p = (name, pt)" by (cases p)
  from Cons.prems(1) p obtain G where G: "gs name = Some G" "shape G = N # shape pt" "well_formed G"
    by (auto simp: per_sample_grads_def split: option.splits)
  from Cons.prems(1) have rest: "per_sample_grads N ps gs"
    by (simp add: per_sample_grads_def)
  from Cons.hyps(1) m p have mt: "mn = name" "shape mt = shape pt" "well_formed mt"
    by simp_all
  obtain s xs where st: "mt = Tensor s xs" by (cases mt)
  have prod: "ebind (mul_unsqueeze mt G) (reshape_sum N)
                = Inr (map (\<lambda>i. dot (vals mt) (sample G i)) [0..<N])"
    using reshape_sum_products [of G N s xs] G mt Cons.prems(2)
    by (simp add: well_formed_def st)
  have "m_nabla_delta_loop N gs (m # ms) (p # ps) (map f [0..<N])
          = ebind (ebind (mul_unsqueeze mt G) (reshape_sum N))
              (\<lambda>s. m_nabla_delta_loop N gs ms ps (map2 (+) (map f [0..<N]) s))"
    by (simp add: m p G ebind_assoc)
  also have "\<dots> = m_nabla_delta_loop N gs ms ps
                     (map (\<lambda>i. f i + dot (vals mt) (sample G i)) [0..<N])"
    by (simp add: prod zip_map_map zip_same_conv_map comp_def)
  also have "\<dots> = Inr (map (\<lambda>i. f i + dot (vals mt) (sample G i) + spec_projection ms gs i)
                       [0..<N])"
    by (rule Cons.IH [OF rest Cons.prems(2)])
  finally show ?case
    by (simp add: spec_projection_def m mt G add.assoc)
qed

lemma m_grad_loop_formula:
  assumes "list_all2 (\<lambda>m p. shape (snd m) = shape (snd p)) M P"
    and "list_all (\<lambda>p. length (shape (snd p)) = 1 \<or> length (shape (snd p)) = 2) P"
    and "per_sample_grads N P gs" and "0 < N"
  shows "\<exists>c'. m_grad_loop gs M P (map c [0..<N]) bc
           = Inr (map (\<lambda>p. spec_reshaped N c (the (gs (fst p)))) P, c')"
  using assms
proof (induction M P arbitrary: bc rule: list_all2_induct)
  case Nil
  then show ?case by simp
next
  case (Cons m ms p ps)
  obtain mn mt where m: "m = (mn, mt)" by (cases m)
  obtain name pt where p: "p = (name, pt)" by (cases p)
  from Cons.prems(2) p obtain G where G: "gs name = Some G" "shape G = N # shape pt" "well_formed G"
    by (auto simp: per_sample_grads_def split: option.splits)
  from Cons.prems(2) have rest: "per_sample_grads N ps gs"
    by (simp add: per_sample_grads_def)
  from Cons.prems(1) p have rk: "length (shape pt) = 1 \<or> length (shape pt) = 2"
    and rks: "list_all (\<lambda>p. length (shape (snd p)) = 1 \<or> length (shape (snd p)) = 2) ps"
    by simp_all
  from Cons.hyps(1) m p have sh: "shape mt = shape pt" by simp
  let ?c = "Some (length (shape pt), map c [0..<N])"
  have mean: "ebind (mul_bc (length (shape pt), map c [0..<N]) G) mean0
                = Inr (spec_reshaped N c G)"
    by (rule mean_of_scaled [OF G(2,3) refl Cons.prems(3)])
  have shR: "shape (spec_reshaped N c G) = shape mt"
    using G(2) sh by (simp add: spec_reshaped_def)
  from Cons.IH [OF rks rest Cons.prems(3), of ?c] obtain c' where
    ih: "m_grad_loop gs ms ps (map c [0..<N]) ?c
           = Inr (map (\<lambda>p. spec_reshaped N c (the (gs (fst p)))) ps, c')"
    by blast
  have "m_grad_loop gs (m # ms) (p # ps) (map c [0..<N]) bc
          = ebind (ebind (mul_bc (length (shape pt), map c [0..<N]) G) mean0)
              (\<lambda>R. if shape R \<noteq> shape mt then Inl ShapeError
                    else ebind (m_grad_loop gs ms ps (map c [0..<N]) ?c)
                           (\<lambda>(grads, c'). Inr (R # grads, c')))"
    using rk by (auto simp: m p G Let_def ebind_assoc cong: if_cong)
  also have "\<dots> = Inr (spec_reshaped N c G # map (\<lambda>p. spec_reshaped N c (the (gs (fst p)))) ps, c')"
    by (simp add: mean shR ih)
  finally show ?case
    by (simp add: p G)
qed

lemma reshaped_gradient_formula:
  assumes "list_all2 (\<lambda>m p. fst m = fst p \<and> shape (snd m) = shape (snd p) \<and> well_formed (snd m)) M P"
    and "list_all (\<lambda>p. length (shape (snd p)) = 1 \<or> length (shape (snd p)) = 2) P"
    and "per_sample_grads N P gs" and "0 < N"
  shows "m_nabla_delta_loop N gs M P (replicate N 0) = Inr (map (spec_projection M gs) [0..<N])"
    and "\<exists>c'. m_grad_loop gs M P (map (spec_projection M gs) [0..<N]) bc
           = Inr (map (\<lambda>p. spec_reshaped N (spec_projection M gs) (the (gs (fst p)))) P, c')"
proof -
  from m_nabla_delta_loop_formula [OF assms(1,3,4), of "\<lambda>_. 0"]
  show "m_nabla_delta_loop N gs M P (replicate N 0) = Inr (map (spec_projection M gs) [0..<N])"
    by (simp add: map_replicate_trivial)
  have "list_all2 (\<lambda>m p. shape (snd m) = shape (snd p)) M P"
    using assms(1) by (rule list_all2_mono) simp
  from m_grad_loop_formula [OF this assms(2,3,4)]
  show "\<exists>c'. m_grad_loop gs M P (map (spec_projection M gs) [0..<N]) bc
           = Inr (map (\<lambda>p. spec_reshaped N (spec_projection M gs) (the (gs (fst p)))) P, c')"
    by blast
qed


section \<open>What the two optimizers receive\<close>

lemma set_p_grad_values:
  "set_p_grad M P = Inr g \<Longrightarrow> length M = length P \<Longrightarrow> g = map snd M"
  by (induction M P arbitrary: g rule: set_p_grad.induct)
    (auto simp: ebind_eq_Inr split: if_splits)

lemma length_shapes: "shapes M = shapes P \<Longrightarrow> length M = length P"
  by (auto simp: shapes_def dest: map_eq_imp_length_eq)

lemma momentum_update_values:
  "momentum_update M g = Inr M1 \<Longrightarrow> length M \<le> length g \<Longrightarrow>
   M1 = map2 (\<lambda>m gk. (fst m, Tensor (shape (snd m))
                 (map2 (\<lambda>a b. lambda_val * a + beta * b) (vals (snd m)) (vals gk)))) M g"
  by (induction M g arbitrary: M1 rule: momentum_update.induct)
    (auto simp: ebind_eq_Inr tadd_def smul_def zip_map_map split_def comp_def map_zip_map
      split: if_splits)

lemma critic_update_steps:
  assumes "critic_update ex env ar k st = Inr (st', data)"
  shows "\<exists>M1 gs mnd R c pg.
      rb_sample (rb st) (sample_indices ex k (length (rb st)) (batch_size ar)) = Inr data
    \<and> momentum_update (m_qf1 st)
          (autograd ex (qf1_loss env ar (target_actor st) data) (qf1 st)) = Inr M1
    \<and> compute_sample_nabla_delta ex env ar (target_actor st) (qf1 st) data = Inr gs
    \<and> m_nabla_delta_loop (batch_size ar) gs M1 (qf1 st) (replicate (batch_size ar) 0) = Inr mnd
    \<and> m_grad_loop gs M1 (qf1 st) mnd (m_nabla_delta_bc st) = Inr (R, c)
    \<and> m_qf1 st' = fst (RMSprop_step (0.5 * learning_rate ar) M1 R (M_optimizer st))
    \<and> set_p_grad (m_qf1 st') (qf1 st) = Inr pg
    \<and> qf1 st' = fst (Adam_step (learning_rate ar) (q_optimizer st) (qf1 st) pg)"
  using assms
  by (auto simp: critic_update_def RAN_additions_def ebind_eq_Inr Let_def split_def)

lemma sqrt_example: "sqrt (1 / 100000000) = 1 / 10000"
  by (rule real_sqrt_unique) (simp_all add: power2_eq_square)

lemma first_update:
  "RAN_additions args1 (m_qf1 state1) (qf1 state1)
        (autograd ex1 (qf1_loss env1 args1 (target_actor state1) [transition1]) (qf1 state1))
        (compute_sample_nabla_delta ex1 env1 args1 (target_actor state1) (qf1 state1)
           [transition1])
        (M_optimizer state1) (m_nabla_delta_bc state1)
   = Inr \<lparr>ran_m_qf1 = with_fc3_bias (- 4999 / 10001000) (m_qf1 state1),
          ran_square_avg = map snd (with_fc3_bias (1 / 100000000) (m_qf1 state1)),
          ran_m_nabla_delta_bc = Some (1, [- 1 / 1000]),
          ran_m_grad = map snd (with_fc3_bias (1 / 1000) (m_qf1 state1)),
          ran_p_grad = map snd (with_fc3_bias (- 4999 / 10001000) (m_qf1 state1))\<rparr>"
  by (simp add: world_defs state1_def transition1_def with_fc3_bias_def power2_eq_square
      sqrt_example del: upt_rec_numeral)

lemma first_momentum_update:
  "momentum_update (m_qf1 state1)
     (autograd ex1 (qf1_loss env1 args1 (target_actor state1) [transition1]) (qf1 state1))
   = Inr (with_fc3_bias (1 / 1000) (m_qf1 state1))"
  by (simp add: world_defs state1_def transition1_def with_fc3_bias_def power2_eq_square
      del: upt_rec_numeral)

lemma first_critic_update:
  "\<exists>st' data. critic_update ex1 env1 args1 1 state1 = Inr (st', data)"
  by (simp add: world_defs state1_def transition1_def power2_eq_square del: upt_rec_numeral)

lemma first_batch:
  "rb_sample (rb state1) (sample_indices ex1 1 (length (rb state1)) (batch_size args1))
     = Inr [transition1]"
  by (simp add: rb_sample_def state1_def ex1_def args1_def)

lemma first_per_sample_grads:
  "compute_sample_nabla_delta ex1 env1 args1 (target_actor state1) (qf1 state1) [transition1]
     = Inr (map_of (map (\<lambda>p. (fst p, if fst p = ''fc3.bias'' then Tensor [1, 1] [- 1]
                                         else Tensor (1 # shape (snd p))
                                                (replicate (prod_list (shape (snd p))) 0)))
                      (qf1 state1)))"
  by (simp add: world_defs state1_def transition1_def del: upt_rec_numeral)

lemma names_and_shapes:
  "shapes M = shapes P \<Longrightarrow>
   list_all2 (\<lambda>m p. fst m = fst p \<and> shape (snd m) = shape (snd p)) M P"
proof (induction M arbitrary: P)
  case Nil
  then show ?case by (simp add: shapes_def)
next
  case (Cons m M)
  then obtain p P' where P: "P = p # P'" by (cases P) (auto simp: shapes_def)
  with Cons.prems have "fst m = fst p" "shape (snd m) = shape (snd p)" "shapes M = shapes P'"
    by (simp_all add: shapes_def)
  with Cons.IH [of P'] show ?case by (simp add: P)
qed


text \<open>
  C2 (as amended).  Whenever a critic update returns, from a state in which the critic
  and the momentum network have the parameter names and shapes of \<^verbatim>\<open>QNetwork\<close>: the
  gradients that \<^verbatim>\<open>q_optimizer.step()\<close> applies to the critic are the tensors of the
  momentum network itself, as they stand at the end of the update, that is after the
  moving average with the batch gradient and after \<^verbatim>\<open>M_optimizer.step()\<close>.  The
  reshaped gradient \<open>R\<close> of lines 294--321 is the gradient of \<^verbatim>\<open>M_optimizer.step()\<close>;
  it is the specification's mean over the samples of \<open>c_i * G[name]_i\<close>, with the
  projections \<open>c_i\<close> taken against the momentum after the moving average, whenever the
  tensors involved are well formed.  The batch gradient enters only through the moving
  average.
\<close>

theorem critic_gradient_is_momentum:
  assumes "critic_update ex env ar k st = Inr (st', data)"
    and "shapes (qf1 st) = shapes (QNetwork env init)"
    and "shapes (m_qf1 st) = shapes (QNetwork env init)"
  shows "qf1 st' = fst (Adam_step (learning_rate ar) (q_optimizer st) (qf1 st)
                         (map snd (m_qf1 st')))
       \<and> (\<exists>M1 gs mnd R c.
            momentum_update (m_qf1 st)
              (autograd ex (qf1_loss env ar (target_actor st) data) (qf1 st)) = Inr M1
          \<and> compute_sample_nabla_delta ex env ar (target_actor st) (qf1 st) data = Inr gs
          \<and> m_nabla_delta_loop (batch_size ar) gs M1 (qf1 st) (replicate (batch_size ar) 0)
              = Inr mnd
          \<and> m_grad_loop gs M1 (qf1 st) mnd (m_nabla_delta_bc st) = Inr (R, c)
          \<and> m_qf1 st' = fst (RMSprop_step (0.5 * learning_rate ar) M1 R (M_optimizer st))
          \<and> (list_all (\<lambda>m. well_formed (snd m)) M1
               \<and> per_sample_grads (batch_size ar) (qf1 st) gs \<and> 0 < batch_size ar \<longrightarrow>
                 mnd = map (spec_projection M1 gs) [0..<batch_size ar]
               \<and> R = map (\<lambda>p. spec_reshaped (batch_size ar) (spec_projection M1 gs)
                                   (the (gs (fst p)))) (qf1 st)))"
proof -
  from critic_update_steps [OF assms(1)] obtain M1 gs mnd R c pg where
    s: "momentum_update (m_qf1 st)
          (autograd ex (qf1_loss env ar (target_actor st) data) (qf1 st)) = Inr M1"
      "compute_sample_nabla_delta ex env ar (target_actor st) (qf1 st) data = Inr gs"
      "m_nabla_delta_loop (batch_size ar) gs M1 (qf1 st) (replicate (batch_size ar) 0) = Inr mnd"
      "m_grad_loop gs M1 (qf1 st) mnd (m_nabla_delta_bc st) = Inr (R, c)"
      "m_qf1 st' = fst (RMSprop_step (0.5 * learning_rate ar) M1 R (M_optimizer st))"
    and pg: "set_p_grad (m_qf1 st') (qf1 st) = Inr pg"
      "qf1 st' = fst (Adam_step (learning_rate ar) (q_optimizer st) (qf1 st) pg)"
    by blast
  have "shapes (m_qf1 st') = shapes (qf1 st)"
    using critic_update_frame(2) [OF assms(1)] assms(2,3) by simp
  then have "length (m_qf1 st') = length (qf1 st)"
    by (rule length_shapes)
  from set_p_grad_values [OF pg(1) this] pg(2)
  have adam: "qf1 st' = fst (Adam_step (learning_rate ar) (q_optimizer st) (qf1 st)
                              (map snd (m_qf1 st')))"
    by simp
  have formula: "mnd = map (spec_projection M1 gs) [0..<batch_size ar]
               \<and> R = map (\<lambda>p. spec_reshaped (batch_size ar) (spec_projection M1 gs)
                                   (the (gs (fst p)))) (qf1 st)"
    if wf: "list_all (\<lambda>m. well_formed (snd m)) M1"
      and ps: "per_sample_grads (batch_size ar) (qf1 st) gs" and N: "0 < batch_size ar"
  proof -
    have "shapes M1 = shapes (qf1 st)"
      using shapes_momentum_update [OF s(1)] assms(2,3) by simp
    from names_and_shapes [OF this] wf
    have fit: "list_all2 (\<lambda>m p. fst m = fst p \<and> shape (snd m) = shape (snd p)
                 \<and> well_formed (snd m)) M1 (qf1 st)"
      by (auto simp: list_all2_conv_all_nth list_all_length)
    have rk: "list_all (\<lambda>p. length (shape (snd p)) = 1 \<or> length (shape (snd p)) = 2) (qf1 st)"
      using assms(2) by (rule rank_of_shapes)
    from reshaped_gradient_formula(1) [OF fit rk ps N] s(3)
    have mnd: "mnd = map (spec_projection M1 gs) [0..<batch_size ar]" by simp
    from reshaped_gradient_formula(2) [OF fit rk ps N, of "m_nabla_delta_bc st"] s(4)
    show ?thesis unfolding mnd by auto
  qed
  have "\<exists>M1 gs mnd R c.
            momentum_update (m_qf1 st)
              (autograd ex (qf1_loss env ar (target_actor st) data) (qf1 st)) = Inr M1
          \<and> compute_sample_nabla_delta ex env ar (target_actor st) (qf1 st) data = Inr gs
          \<and> m_nabla_delta_loop (batch_size ar) gs M1 (qf1 st) (replicate (batch_size ar) 0)
              = Inr mnd
          \<and> m_grad_loop gs M1 (qf1 st) mnd (m_nabla_delta_bc st) = Inr (R, c)
          \<and> m_qf1 st' = fst (RMSprop_step (0.5 * learning_rate ar) M1 R (M_optimizer st))
          \<and> (list_all (\<lambda>m. well_formed (snd m)) M1
               \<and> per_sample_grads (batch_size ar) (qf1 st) gs \<and> 0 < batch_size ar \<longrightarrow>
                 mnd = map (spec_projection M1 gs) [0..<batch_size ar]
               \<and> R = map (\<lambda>p. spec_reshaped (batch_size ar) (spec_projection M1 gs)
                                   (the (gs (fst p)))) (qf1 st))"
    by (rule exI [of _ M1], rule exI [of _ gs], rule exI [of _ mnd], rule exI [of _ R],
        rule exI [of _ c]) (use s formula in simp)
  with adam show ?thesis by (rule conjI)
qed

theorem critic_gradient_is_momentum_witness:
  "\<exists>st' data M1 gs R.
      critic_update ex1 env1 args1 1 state1 = Inr (st', data)
    \<and> shapes (qf1 state1) = shapes (QNetwork env1 (\<lambda>_ _. 0))
    \<and> shapes (m_qf1 state1) = shapes (QNetwork env1 (\<lambda>_ _. 0))
    \<and> qf1 st' = fst (Adam_step (learning_rate args1) (q_optimizer state1) (qf1 state1)
                       (map snd (m_qf1 st')))
    \<and> momentum_update (m_qf1 state1)
         (autograd ex1 (qf1_loss env1 args1 (target_actor state1) data) (qf1 state1)) = Inr M1
    \<and> compute_sample_nabla_delta ex1 env1 args1 (target_actor state1) (qf1 state1) data = Inr gs
    \<and> list_all (\<lambda>m. well_formed (snd m)) M1
    \<and> per_sample_grads (batch_size args1) (qf1 state1) gs \<and> 0 < batch_size args1
    \<and> R = map (\<lambda>p. spec_reshaped (batch_size args1) (spec_projection M1 gs)
                       (the (gs (fst p)))) (qf1 state1)
    \<and> m_qf1 st' = fst (RMSprop_step (0.5 * learning_rate args1) M1 R (M_optimizer state1))"
proof -
  from first_critic_update obtain st' data where
    c: "critic_update ex1 env1 args1 1 state1 = Inr (st', data)" by blast
  from critic_update_steps [OF c] first_batch have data: "data = [transition1]"
    by auto
  have sq: "shapes (qf1 state1) = shapes (QNetwork env1 (\<lambda>_ _. 0))"
    and sm: "shapes (m_qf1 state1) = shapes (QNetwork env1 (\<lambda>_ _. 0))"
    by (simp_all add: state1_def shapes_startup [of ex1 env1 "\<lambda>_ _. 0"])
  from critic_gradient_is_momentum [OF c sq sm] obtain M1 gs mnd R c' where
    t: "qf1 st' = fst (Adam_step (learning_rate args1) (q_optimizer state1) (qf1 state1)
                       (map snd (m_qf1 st')))"
      "momentum_update (m_qf1 state1)
         (autograd ex1 (qf1_loss env1 args1 (target_actor state1) data) (qf1 state1)) = Inr M1"
      "compute_sample_nabla_delta ex1 env1 args1 (target_actor state1) (qf1 state1) data = Inr gs"
      "m_qf1 st' = fst (RMSprop_step (0.5 * learning_rate args1) M1 R (M_optimizer state1))"
      "list_all (\<lambda>m. well_formed (snd m)) M1
         \<and> per_sample_grads (batch_size args1) (qf1 state1) gs \<and> 0 < batch_size args1 \<longrightarrow>
       R = map (\<lambda>p. spec_reshaped (batch_size args1) (spec_projection M1 gs)
                       (the (gs (fst p)))) (qf1 state1)"
    by blast
  from t(2) first_momentum_update have M1: "M1 = with_fc3_bias (1 / 1000) (m_qf1 state1)"
    by (simp add: data)
  from t(3) first_per_sample_grads have gs:
    "gs = map_of (map (\<lambda>p. (fst p, if fst p = ''fc3.bias'' then Tensor [1, 1] [- 1]
                                         else Tensor (1 # shape (snd p))
                                                (replicate (prod_list (shape (snd p))) 0)))
                      (qf1 state1))"
    by (simp add: data)
  have wf: "list_all (\<lambda>m. well_formed (snd m)) M1"
    unfolding M1
    by (simp add: with_fc3_bias_def state1_def startup_def Let_def QNetwork_def Linear_def
        fill_def well_formed_def)
  have ps: "per_sample_grads (batch_size args1) (qf1 state1) gs"
    unfolding gs
    by (simp add: state1_def startup_def Let_def QNetwork_def Linear_def per_sample_grads_def
        well_formed_def args1_def)
  have N: "0 < batch_size args1"
    by (simp add: args1_def)
  from t(5) wf ps N have "R = map (\<lambda>p. spec_reshaped (batch_size args1) (spec_projection M1 gs)
                       (the (gs (fst p)))) (qf1 state1)"
    by blast
  with c sq sm t(1-4) wf ps N show ?thesis by blast
qed

text \<open>
  The first learning update of the concrete run: the gradient handed to the critic's
  optimizer for \<^verbatim>\<open>fc3.bias\<close> is \<open>-4999/10001000\<close>, the momentum after its own
  optimizer's step, while the reshaped gradient \<open>R\<close> of that parameter is \<open>1/1000\<close>.
\<close>

theorem critic_gradient_counterexample:
  "(case RAN_additions args1 (m_qf1 state1) (qf1 state1)
          (autograd ex1 (qf1_loss env1 args1 (target_actor state1) [transition1]) (qf1 state1))
          (compute_sample_nabla_delta ex1 env1 args1 (target_actor state1) (qf1 state1)
             [transition1])
          (M_optimizer state1) (m_nabla_delta_bc state1) of
      Inl e \<Rightarrow> False
    | Inr r \<Rightarrow> ran_m_grad r ! 5 = Tensor [1] [1 / 1000]
               \<and> ran_p_grad r ! 5 = Tensor [1] [- 4999 / 10001000]
               \<and> ran_p_grad r \<noteq> ran_m_grad r)"
  unfolding first_update
  by (simp add: with_fc3_bias_def state1_def startup_def QNetwork_def Linear_def Let_def fill_def)

text \<open>
  C3 (as amended).  Whenever a critic update returns, and autograd has delivered a
  gradient for every parameter of the momentum network: the momentum network is first
  replaced by \<open>0.999 * M + 0.001 * g\<close>, entry by entry, which does not involve the
  per-sample gradients; and its value at the end of the update is that moving average
  after one step of \<^verbatim>\<open>M_optimizer\<close> (RMSprop with half the learning rate) along the
  reshaped gradient \<open>R\<close>, which lines 294--321 compute from the per-sample gradients.
\<close>

theorem momentum_updated_twice:
  assumes "critic_update ex env ar k st = Inr (st', data)"
    and "length (m_qf1 st)
           \<le> length (autograd ex (qf1_loss env ar (target_actor st) data) (qf1 st))"
  shows "\<exists>M1 gs mnd R c.
            momentum_update (m_qf1 st)
              (autograd ex (qf1_loss env ar (target_actor st) data) (qf1 st)) = Inr M1
          \<and> M1 = map2 (\<lambda>m gk. (fst m, Tensor (shape (snd m))
                          (map2 (\<lambda>a b. 0.999 * a + 0.001 * b) (vals (snd m)) (vals gk))))
                    (m_qf1 st)
                    (autograd ex (qf1_loss env ar (target_actor st) data) (qf1 st))
          \<and> compute_sample_nabla_delta ex env ar (target_actor st) (qf1 st) data = Inr gs
          \<and> m_nabla_delta_loop (batch_size ar) gs M1 (qf1 st) (replicate (batch_size ar) 0)
              = Inr mnd
          \<and> m_grad_loop gs M1 (qf1 st) mnd (m_nabla_delta_bc st) = Inr (R, c)
          \<and> m_qf1 st' = fst (RMSprop_step (0.5 * learning_rate ar) M1 R (M_optimizer st))"
proof -
  from critic_update_steps [OF assms(1)] obtain M1 gs mnd R c where
    s: "momentum_update (m_qf1 st)
          (autograd ex (qf1_loss env ar (target_actor st) data) (qf1 st)) = Inr M1"
      "compute_sample_nabla_delta ex env ar (target_actor st) (qf1 st) data = Inr gs"
      "m_nabla_delta_loop (batch_size ar) gs M1 (qf1 st) (replicate (batch_size ar) 0) = Inr mnd"
      "m_grad_loop gs M1 (qf1 st) mnd (m_nabla_delta_bc st) = Inr (R, c)"
      "m_qf1 st' = fst (RMSprop_step (0.5 * learning_rate ar) M1 R (M_optimizer st))"
    by blast
  from momentum_update_values [OF s(1) assms(2)] s show ?thesis
    unfolding lambda_val_def beta_def by blast
qed

theorem momentum_updated_twice_witness:
  "\<exists>st' data M1 R.
      critic_update ex1 env1 args1 1 state1 = Inr (st', data)
    \<and> length (m_qf1 state1)
         \<le> length (autograd ex1 (qf1_loss env1 args1 (target_actor state1) data) (qf1 state1))
    \<and> momentum_update (m_qf1 state1)
         (autograd ex1 (qf1_loss env1 args1 (target_actor state1) data) (qf1 state1)) = Inr M1
    \<and> m_qf1 st' = fst (RMSprop_step (0.5 * learning_rate args1) M1 R (M_optimizer state1))"
proof -
  from first_critic_update obtain st' data where
    c: "critic_update ex1 env1 args1 1 state1 = Inr (st', data)" by blast
  have l: "length (m_qf1 state1)
         \<le> length (autograd ex1 (qf1_loss env1 args1 (target_actor state1) data) (qf1 state1))"
    by (simp add: ex1_def autograd1_def state1_def startup_def Let_def QNetwork_def Linear_def)
  from momentum_updated_twice [OF c l] c l show ?thesis by blast
qed

text \<open>
  The first learning update of the concrete run: the moving average puts \<open>1/1000\<close> into
  \<^verbatim>\<open>fc3.bias\<close> of the momentum network, and the update ends with \<open>-4999/10001000\<close>
  there, because the step of \<^verbatim>\<open>M_optimizer\<close> along the reshaped gradient follows.
\<close>

theorem momentum_updated_twice_counterexample:
  "momentum_update (m_qf1 state1)
      (autograd ex1 (qf1_loss env1 args1 (target_actor state1) [transition1]) (qf1 state1))
    = Inr (with_fc3_bias (1 / 1000) (m_qf1 state1))
   \<and> (case RAN_additions args1 (m_qf1 state1) (qf1 state1)
          (autograd ex1 (qf1_loss env1 args1 (target_actor state1) [transition1]) (qf1 state1))
          (compute_sample_nabla_delta ex1 env1 args1 (target_actor state1) (qf1 state1)
             [transition1])
          (M_optimizer state1) (m_nabla_delta_bc state1) of
        Inl e \<Rightarrow> False
      | Inr r \<Rightarrow> ran_m_qf1 r = with_fc3_bias (- 4999 / 10001000) (m_qf1 state1)
                 \<and> ran_m_qf1 r \<noteq> with_fc3_bias (1 / 1000) (m_qf1 state1))"
  unfolding first_update first_momentum_update
  by (simp add: with_fc3_bias_def state1_def startup_def QNetwork_def Linear_def Let_def fill_def)

section \<open>The residual that is differentiated\<close>







end
